theory Spec2Isabelle
  imports Complex_Main "HOL-Library.Word"
begin

section \<open>JavaScript values\<close>

text \<open>
  The values that reach the constructors of \<^verbatim>\<open>SectorGeometry.js\<close> and
  \<^verbatim>\<open>RingGeometry.js\<close>. A finite IEEE double is idealised as a real number, without
  infinities; the one rounding that is modelled is that of the quotient which fixes the
  number of arc points. \<open>NaN\<close> is kept apart because every comparison with it is
  false. \<open>Undefined\<close> is the value of a property that the options object does not have;
  \<open>Boolean\<close> stands for the values whose \<^verbatim>\<open>typeof\<close> is not \<^verbatim>\<open>"number"\<close>.
\<close>

datatype jsval = Undefined | Boolean bool | Number real | NaN

datatype error = DeveloperError string | TypeError | RangeError

text \<open>\<^verbatim>\<open>typeof v === "number"\<close>\<close>

fun typeof_number :: "jsval \<Rightarrow> bool" where
  "typeof_number (Number r) = True"
| "typeof_number NaN = True"
| "typeof_number Undefined = False"
| "typeof_number (Boolean b) = False"

text \<open>The abstract operation ToNumber of the language; \<open>None\<close> is NaN.\<close>

fun ToNumber :: "jsval \<Rightarrow> real option" where
  "ToNumber (Number r) = Some r"
| "ToNumber NaN = None"
| "ToNumber Undefined = None"
| "ToNumber (Boolean b) = Some (if b then 1 else 0)"

text \<open>The relational operators on values: false as soon as one side is NaN.\<close>

definition js_lt :: "jsval \<Rightarrow> jsval \<Rightarrow> bool" where
  "js_lt a b = (case (ToNumber a, ToNumber b) of (Some x, Some y) \<Rightarrow> x < y | _ \<Rightarrow> False)"

definition js_le :: "jsval \<Rightarrow> jsval \<Rightarrow> bool" where
  "js_le a b = (case (ToNumber a, ToNumber b) of (Some x, Some y) \<Rightarrow> x \<le> y | _ \<Rightarrow> False)"

definition js_gt :: "jsval \<Rightarrow> jsval \<Rightarrow> bool" where
  "js_gt a b = (case (ToNumber a, ToNumber b) of (Some x, Some y) \<Rightarrow> x > y | _ \<Rightarrow> False)"

definition js_ge :: "jsval \<Rightarrow> jsval \<Rightarrow> bool" where
  "js_ge a b = (case (ToNumber a, ToNumber b) of (Some x, Some y) \<Rightarrow> x \<ge> y | _ \<Rightarrow> False)"

text \<open>The operator \<^verbatim>\<open>*\<close>: the product of the operands' numbers, NaN if one is NaN.\<close>

definition js_mul :: "jsval \<Rightarrow> jsval \<Rightarrow> jsval" where
  "js_mul a b = (case (ToNumber a, ToNumber b) of (Some x, Some y) \<Rightarrow> Number (x * y) | _ \<Rightarrow> NaN)"

subsection \<open>Helpers of the Core directory\<close>

text \<open>
  Modelled from the spec: the module \<^verbatim>\<open>./defined\<close> is not among the sources. It tells
  whether a required field is present: a value is defined unless it is \<^verbatim>\<open>undefined\<close>.
\<close>

definition defined :: "jsval \<Rightarrow> bool" where
  "defined v = (v \<noteq> Undefined)"

text \<open>
  Modelled from the spec: the module \<^verbatim>\<open>./defaultValue\<close> is not among the sources. It
  yields its first argument, or the second one when the first is \<^verbatim>\<open>undefined\<close>
  (an optional field that was omitted).
\<close>

definition defaultValue :: "jsval \<Rightarrow> jsval \<Rightarrow> jsval" where
  "defaultValue a b = (if a \<noteq> Undefined then a else b)"

text \<open>
  Modelled from the spec: the module \<^verbatim>\<open>./Math\<close> (\<^verbatim>\<open>CesiumMath\<close>) is not among the
  sources. \<open>RADIANS_PER_DEGREE\<close> is the factor of the conversion of degrees to radians.
\<close>

definition RADIANS_PER_DEGREE :: real where
  "RADIANS_PER_DEGREE = pi / 180"

text \<open>
  Modelled from the spec: \<^verbatim>\<open>CesiumMath.TWO_PI\<close>, of the same missing module, is the
  bound \<open>2\<pi>\<close> that the sector angle stays below.
\<close>

definition TWO_PI :: real where
  "TWO_PI = 2 * pi"

text \<open>
  Modelled from the spec: \<^verbatim>\<open>CesiumMath.toRadians\<close>, of the same missing module, converts
  an angle in degrees to radians.
\<close>

definition toRadians :: "real \<Rightarrow> real" where
  "toRadians degrees = degrees * RADIANS_PER_DEGREE"

text \<open>
  Modelled from the spec: the same conversion applied to an arbitrary value, as the
  constructor does. The spec makes a missing required field a failure at construction,
  and the documentation of the constructor says so of a sector angle that is not
  specified: the conversion rejects a missing operand with a \<open>DeveloperError\<close>. Any
  other value is multiplied as the language does.
\<close>

definition toRadians_js :: "jsval \<Rightarrow> error + jsval" where
  "toRadians_js degrees =
     (if \<not> defined degrees then Inl (DeveloperError ''degrees is required.'')
      else Inr (js_mul degrees (Number RADIANS_PER_DEGREE)))"

text \<open>
  Modelled from the spec: \<^verbatim>\<open>defaultValue\<close> applied to the options object itself. An
  omitted argument is replaced by \<^verbatim>\<open>defaultValue.EMPTY_OBJECT\<close>, the object without
  properties.
\<close>

definition defaultValue_object :: "'o option \<Rightarrow> 'o \<Rightarrow> 'o" where
  "defaultValue_object a b = (case a of Some v \<Rightarrow> v | None \<Rightarrow> b)"

section \<open>Doubles and typed arrays\<close>

text \<open>
  The number of arc points decides the lengths of the buffers, so the rounding of the
  quotient that it is computed from is modelled: \<open>to_double\<close> is the rounding of a real
  to the nearest double, ties to even, of IEEE 754 binary64. \<open>double_exponent\<close> is the
  binary exponent, held at \<open>-1022\<close> for the subnormal range, and \<open>double_ulp\<close> the
  distance of two neighbouring doubles there. A result of \<open>2^1024\<close> or more stands for
  an infinite double. The coordinates of the points are idealised as reals.
\<close>

definition double_exponent :: "real \<Rightarrow> int" where
  "double_exponent x = max \<lfloor>log 2 \<bar>x\<bar>\<rfloor> (- 1022)"

definition double_ulp :: "real \<Rightarrow> real" where
  "double_ulp x = 2 powr real_of_int (double_exponent x - 52)"

definition round_ties_even :: "real \<Rightarrow> int" where
  "round_ties_even y =
     (let f = \<lfloor>y\<rfloor>
      in if y - real_of_int f < 1 / 2 then f
         else if 1 / 2 < y - real_of_int f then f + 1
         else if even f then f else f + 1)"

definition to_double :: "real \<Rightarrow> real" where
  "to_double x = (if x = 0 then 0 else real_of_int (round_ties_even (x / double_ulp x)) * double_ulp x)"

text \<open>
  The constructor of a typed array, \<^verbatim>\<open>new Float64Array(n)\<close> or
  \<^verbatim>\<open>new Uint16Array(n)\<close>, accepts a length only if it is not negative, not above
  \<open>2^53 - 1\<close>, and not above \<open>limit\<close>, the largest length for which the engine
  allocates a typed array; otherwise it throws a \<^verbatim>\<open>RangeError\<close>. The limit depends
  on the engine, so it is a parameter.
\<close>

definition typed_array_fits :: "nat \<Rightarrow> int \<Rightarrow> bool" where
  "typed_array_fits limit n = (0 \<le> n \<and> n \<le> 2 ^ 53 - 1 \<and> n \<le> int limit)"

definition new_typed_array :: "nat \<Rightarrow> int \<Rightarrow> 'a \<Rightarrow> error + 'a list" where
  "new_typed_array limit n zero =
     (if typed_array_fits limit n then Inr (replicate (nat n) zero) else Inl RangeError)"

section \<open>Geometry\<close>

text \<open>
  Modelled from the spec: the modules \<^verbatim>\<open>./PrimitiveType\<close>, \<^verbatim>\<open>./BoundingSphere\<close>,
  \<^verbatim>\<open>./Geometry\<close> and \<^verbatim>\<open>./GeometryAttributes\<close> are not among the sources. The mesh
  descriptor of the spec has the positions, the indices, a primitive type, of which the
  spec names \<open>TRIANGLES\<close> and \<open>LINES\<close>, and a bounding sphere with a centre and a radius.
\<close>

datatype PrimitiveType = TRIANGLES | LINES

datatype BoundingSphere = BoundingSphere (sphere_center: "real \<times> real \<times> real") (sphere_radius: real)

text \<open>
  Modelled from the spec: a \<^verbatim>\<open>Geometry\<close>, where \<open>values\<close> is
  \<^verbatim>\<open>attributes.position.values\<close>, the flat buffer of coordinates, and \<open>'i\<close> is the
  element type of the index buffer.
\<close>

record 'i Geometry =
  "values" :: "real list"
  indices :: "'i list"
  primitiveType :: PrimitiveType
  boundingSphere :: BoundingSphere

section \<open>RingGeometry.js\<close>

text \<open>
  The fields that the ring options share with the options of an ellipse outline. An
  object without the property \<open>center\<close> or \<open>ellipsoid\<close> has \<open>None\<close> there.
\<close>

record ('c, 'e) outline_common =
  center :: "'c option"
  ellipsoid :: "'e option"
  height :: jsval
  extrudedHeight :: jsval
  granularity :: jsval
  numberOfVerticalLines :: jsval

record ('c, 'e) ring_options = "('c, 'e) outline_common" +
  innerRadius :: jsval
  outerRadius :: jsval

record ('c, 'e) ellipse_options = "('c, 'e) outline_common" +
  semiMajorAxis :: jsval
  semiMinorAxis :: jsval

text \<open>The descriptor that the constructor fills: \<^verbatim>\<open>this._innerEllipseGeometry\<close> and so on.\<close>

record 'g ring_descriptor =
  innerEllipseGeometry :: 'g
  outerEllipseGeometry :: 'g
  ring_workerName :: string

text \<open>\<^verbatim>\<open>defaultValue.EMPTY_OBJECT\<close> read as ring options: every property is missing.\<close>

definition EMPTY_OBJECT_ring :: "('c, 'e) ring_options" where
  "EMPTY_OBJECT_ring =
     \<lparr>center = None, ellipsoid = None, height = Undefined, extrudedHeight = Undefined,
      granularity = Undefined, numberOfVerticalLines = Undefined,
      innerRadius = Undefined, outerRadius = Undefined\<rparr>"

text \<open>Lines 92 to 101 and 103 to 112: the two object literals.\<close>

definition innerEllipseGeometryOptions :: "('c, 'e) ring_options \<Rightarrow> ('c, 'e) ellipse_options" where
  "innerEllipseGeometryOptions options =
     \<lparr>center = center options, ellipsoid = ellipsoid options, height = height options,
      extrudedHeight = extrudedHeight options, granularity = granularity options,
      numberOfVerticalLines = numberOfVerticalLines options,
      semiMajorAxis = innerRadius options, semiMinorAxis = innerRadius options\<rparr>"

definition outerEllipseGeometryOptions :: "('c, 'e) ring_options \<Rightarrow> ('c, 'e) ellipse_options" where
  "outerEllipseGeometryOptions options =
     \<lparr>center = center options, ellipsoid = ellipsoid options, height = height options,
      extrudedHeight = extrudedHeight options, granularity = granularity options,
      numberOfVerticalLines = numberOfVerticalLines options,
      semiMajorAxis = outerRadius options, semiMinorAxis = outerRadius options\<rparr>"

text \<open>
  Lines 67 to 118, the constructor. \<open>EllipseOutlineGeometry\<close> is the constructor of the
  module \<^verbatim>\<open>./EllipseOutlineGeometry\<close>, which is not among the sources: it is a
  parameter that yields a descriptor or throws.
\<close>

definition RingGeometry ::
  "(('c, 'e) ellipse_options \<Rightarrow> error + 'g) \<Rightarrow> ('c, 'e) ring_options option
     \<Rightarrow> error + 'g ring_descriptor" where
  "RingGeometry EllipseOutlineGeometry arg =
     (let options = defaultValue_object arg EMPTY_OBJECT_ring;
          outerRadius = outerRadius options;
          innerRadius = innerRadius options
      in if \<not> defined outerRadius then Inl (DeveloperError ''outerRadius must be specified!'')
         else if \<not> typeof_number outerRadius then Inl (DeveloperError ''outerRadius must be a number!'')
         else if js_le outerRadius (Number 0.0) then
           Inl (DeveloperError ''outerRadius must be a positive number'')
         else if \<not> defined innerRadius then Inl (DeveloperError ''innerRadius must be specified!'')
         else if \<not> typeof_number innerRadius then Inl (DeveloperError ''innerRadius must be a number!'')
         else if js_le innerRadius (Number 0.0) \<or> js_ge innerRadius outerRadius then
           Inl (DeveloperError ''innerRadius must be a positive number and less than outerRadius'')
         else
           (case EllipseOutlineGeometry (innerEllipseGeometryOptions options) of
              Inl e \<Rightarrow> Inl e
            | Inr inner \<Rightarrow>
                (case EllipseOutlineGeometry (outerEllipseGeometryOptions options) of
                   Inl e \<Rightarrow> Inl e
                 | Inr outer \<Rightarrow>
                     Inr \<lparr>innerEllipseGeometry = inner, outerEllipseGeometry = outer,
                          ring_workerName = ''createRingGeometry''\<rparr>)))"

text \<open>
  Reading cell \<open>j\<close> of a \<^verbatim>\<open>Float64Array\<close>: \<^verbatim>\<open>undefined\<close> beyond the end.
\<close>

definition typed_array_get :: "real list \<Rightarrow> nat \<Rightarrow> jsval" where
  "typed_array_get vals j = (if j < length vals then Number (vals ! j) else Undefined)"

text \<open>Reading element \<open>j\<close> of an array: \<^verbatim>\<open>undefined\<close>, here \<open>None\<close>, beyond the end.\<close>

definition array_get :: "'p list \<Rightarrow> nat \<Rightarrow> 'p option" where
  "array_get xs j = (if j < length xs then Some (xs ! j) else None)"

text \<open>
  Lines 170 to 177 (and 179 to 186): one point for each \<open>i\<close> below
  \<^verbatim>\<open>vals.length / 3\<close>, a quotient of reals. \<open>fromElements\<close> is
  \<^verbatim>\<open>Cartesian3.fromElements\<close>, a parameter since its module is not among the sources.
\<close>

function cart3s_loop ::
  "(jsval \<Rightarrow> jsval \<Rightarrow> jsval \<Rightarrow> 'p) \<Rightarrow> real list \<Rightarrow> nat \<Rightarrow> 'p list \<Rightarrow> 'p list" where
  "cart3s_loop fromElements vals i cart3s =
     (if real i < real (length vals) / 3 then
        let j = i * 3;
            cart3 = fromElements (typed_array_get vals j) (typed_array_get vals (j + 1))
                      (typed_array_get vals (j + 2))
        in cart3s_loop fromElements vals (i + 1) (cart3s @ [cart3])
      else cart3s)"
  by pat_completeness auto
termination
  by (relation "measure (\<lambda>(fromElements, vals, i, cart3s). length vals - 3 * i)") auto

text \<open>Lines 190 to 192 (and 194 to 196): the walk along an index buffer.\<close>

fun positions_walk :: "'p list \<Rightarrow> nat list \<Rightarrow> 'p option list \<Rightarrow> 'p option list" where
  "positions_walk cart3s [] acc = acc"
| "positions_walk cart3s (idx # rest) acc = positions_walk cart3s rest (acc @ [array_get cart3s idx])"

text \<open>The result object \<^verbatim>\<open>{positions, holes}\<close> of lines 207 to 210.\<close>

record 'p ring_boundaries =
  positions :: "'p option list"
  holes :: "'p option list"

text \<open>
  Lines 155 to 211. The argument is \<open>None\<close> when the caller passes none: reading a
  property of \<^verbatim>\<open>undefined\<close> throws a \<^verbatim>\<open>TypeError\<close>. \<open>createGeometry\<close> is
  \<^verbatim>\<open>EllipseOutlineGeometry.createGeometry\<close> and \<open>PolygonGeometry\<close> the constructor
  of the polygon, called with the outer positions and the list of holes; both are
  parameters that may throw.
\<close>

definition RingGeometry_createGeometry ::
  "('g \<Rightarrow> error + nat Geometry) \<Rightarrow> (jsval \<Rightarrow> jsval \<Rightarrow> jsval \<Rightarrow> 'p)
     \<Rightarrow> ('p option list \<times> 'p option list list \<Rightarrow> error + 'poly)
     \<Rightarrow> 'g ring_descriptor option \<Rightarrow> error + 'p ring_boundaries" where
  "RingGeometry_createGeometry createGeometry fromElements PolygonGeometry arg =
     (case arg of
        None \<Rightarrow> Inl TypeError
      | Some ringGeometry \<Rightarrow>
          (case createGeometry (innerEllipseGeometry ringGeometry) of
             Inl e \<Rightarrow> Inl e
           | Inr innerGeom \<Rightarrow>
               (case createGeometry (outerEllipseGeometry ringGeometry) of
                  Inl e \<Rightarrow> Inl e
                | Inr outerGeom \<Rightarrow>
                    let innerVals = values innerGeom;
                        outerVals = values outerGeom;
                        innerIndices = indices innerGeom;
                        outerIndices = indices outerGeom;
                        cart3s = cart3s_loop fromElements innerVals 0 [];
                        outerCart3s = cart3s_loop fromElements outerVals 0 [];
                        innerPositions = positions_walk cart3s innerIndices [];
                        outerPositions = positions_walk outerCart3s outerIndices []
                    in (case PolygonGeometry (outerPositions, [innerPositions]) of
                          Inl e \<Rightarrow> Inl e
                        | Inr poly \<Rightarrow>
                            Inr \<lparr>positions = outerPositions, holes = innerPositions\<rparr>))))"

subsection \<open>The boundary as the specification words it\<close>

text \<open>
  The specification of the ring describes the result without the loops: the boundary
  is the index buffer, each index replaced by the point whose three coordinates start at
  cell \<open>3 * idx\<close> of the position buffer. \<open>spec_boundary\<close> follows these words, to be
  compared with \<open>RingGeometry_createGeometry\<close>; an index beyond the points of the buffer
  gives \<^verbatim>\<open>undefined\<close>.
\<close>

definition spec_point_at :: "(jsval \<Rightarrow> jsval \<Rightarrow> jsval \<Rightarrow> 'p) \<Rightarrow> real list \<Rightarrow> nat \<Rightarrow> 'p option" where
  "spec_point_at fromElements vals idx =
     (if 3 * idx < length vals then
        Some (fromElements (typed_array_get vals (3 * idx)) (typed_array_get vals (3 * idx + 1))
                (typed_array_get vals (3 * idx + 2)))
      else None)"

definition spec_boundary ::
  "(jsval \<Rightarrow> jsval \<Rightarrow> jsval \<Rightarrow> 'p) \<Rightarrow> real list \<Rightarrow> nat list \<Rightarrow> 'p option list" where
  "spec_boundary fromElements vals idxs = map (spec_point_at fromElements vals) idxs"

subsection \<open>createRingGeometry.js\<close>

text \<open>The parameters of the worker task, of which the function reads \<open>index\<close>.\<close>

record worker_parameters =
  index :: jsval

text \<open>
  Lines 12 to 20. \<open>transferGeometry\<close> is \<^verbatim>\<open>PrimitivePipeline.transferGeometry\<close>, a
  parameter; the call of line 13 passes no argument. The result object
  \<^verbatim>\<open>{geometry, index}\<close> is the pair of its two fields.
\<close>

definition createRingGeometry ::
  "('g \<Rightarrow> error + nat Geometry) \<Rightarrow> (jsval \<Rightarrow> jsval \<Rightarrow> jsval \<Rightarrow> 'p)
     \<Rightarrow> ('p option list \<times> 'p option list list \<Rightarrow> error + 'poly)
     \<Rightarrow> ('p ring_boundaries \<Rightarrow> 't \<Rightarrow> error + unit)
     \<Rightarrow> 'z worker_parameters_scheme \<Rightarrow> 't \<Rightarrow> error + ('p ring_boundaries \<times> jsval)" where
  "createRingGeometry createGeometry fromElements PolygonGeometry transferGeometry
       parameters transferableObjects =
     (case RingGeometry_createGeometry createGeometry fromElements PolygonGeometry None of
        Inl e \<Rightarrow> Inl e
      | Inr geometry \<Rightarrow>
          (case transferGeometry geometry transferableObjects of
             Inl e \<Rightarrow> Inl e
           | Inr u \<Rightarrow> Inr (geometry, index parameters)))"

section \<open>SectorGeometry.js\<close>

text \<open>
  The options object \<^verbatim>\<open>{radius, sectorAngle, rotation, granularity}\<close>. The constructor
  receives it with arbitrary values in the fields; \<open>computeSector\<close> receives it with the
  numbers that the descriptor stores.
\<close>

record 'a sector_options =
  radius :: 'a
  sectorAngle :: 'a
  rotation :: 'a
  granularity :: 'a

text \<open>Lines 68 to 70: the direction \<open>(x, y)\<close> turned by the step angle.\<close>

fun rotate_step :: "real \<Rightarrow> real \<Rightarrow> real \<times> real \<Rightarrow> real \<times> real" where
  "rotate_step cosTheta sinTheta (x, y) = (cosTheta * x - sinTheta * y, sinTheta * x + cosTheta * y)"

text \<open>
  Lines 61 to 71. Each round writes three cells and advances \<open>i\<close> by three; \<open>r\<close>
  is the radius, \<open>xy\<close> the pair of the variables \<open>x\<close> and \<open>y\<close>, and \<open>buf\<close> the
  array \<open>positions\<close>. A store beyond the end of a typed array is dropped, as
  \<open>list_update\<close> does.
\<close>

function positions_loop ::
  "real \<Rightarrow> real \<Rightarrow> real \<Rightarrow> nat \<Rightarrow> real \<times> real \<Rightarrow> real list \<Rightarrow> real list" where
  "positions_loop r cosTheta sinTheta i xy buf =
     (if i < length buf then
        positions_loop r cosTheta sinTheta (i + 3) (rotate_step cosTheta sinTheta xy)
          (buf[i := fst xy * r, i + 1 := snd xy * r, i + 2 := 0])
      else buf)"
  by pat_completeness auto
termination
  by (relation "measure (\<lambda>(r, cosTheta, sinTheta, i, xy, buf). length buf - i)") auto

text \<open>
  Lines 82 to 86. The buffer is a \<^verbatim>\<open>Uint16Array\<close>: a store keeps the value modulo
  \<open>2^16\<close>, which is \<open>of_nat\<close> into \<open>16 word\<close>.
\<close>

function indices_loop :: "nat \<Rightarrow> nat \<Rightarrow> 16 word list \<Rightarrow> 16 word list" where
  "indices_loop j i ixs =
     (if j < length ixs then
        indices_loop (j + 3) (i + 1) (ixs[j := 0, j + 1 := of_nat i, j + 2 := of_nat (i + 1)])
      else ixs)"
  by pat_completeness auto
termination
  by (relation "measure (\<lambda>(j, i, ixs). length ixs - j)") auto

text \<open>
  Line 43: the number of sampled arc points, from the quotient as the double division
  rounds it.
\<close>

definition numPts :: "real sector_options \<Rightarrow> int" where
  "numPts options = 1 + \<lceil>to_double (sectorAngle options / granularity options)\<rceil>"

text \<open>
  Lines 36 to 104; \<open>limit\<close> is the largest typed array of the engine. Division by zero
  has no real value, so the cases of the source are written out: with \<open>granularity = 0\<close>
  the quotient is infinite (the constructor of line 56 then throws a
  \<^verbatim>\<open>RangeError\<close>) or, for \<open>0/0\<close>, NaN (both buffers are empty). With \<open>numPts = 1\<close>
  the step angle is not finite, but the loop stops before the turned direction is read.
\<close>

definition computeSector :: "nat \<Rightarrow> real sector_options \<Rightarrow> error + 16 word Geometry" where
  "computeSector limit options =
     (if granularity options = 0 \<and> sectorAngle options \<noteq> 0 then Inl RangeError
      else if granularity options = 0 then
        Inr \<lparr>values = [], indices = [], primitiveType = TRIANGLES,
             boundingSphere = BoundingSphere (0, 0, 0) (radius options)\<rparr>
      else
        let rotation = toRadians (rotation options);
            numPts = numPts options;
            theta = sectorAngle options / real_of_int (numPts - 1);
            cosTheta = cos theta;
            sinTheta = sin theta;
            x = cos rotation;
            y = sin rotation
        in case new_typed_array limit ((numPts + 1) * 3) 0 of
             Inl e \<Rightarrow> Inl e
           | Inr buf \<Rightarrow>
               let positions = buf[0 := 0, 1 := 0, 2 := 0];
                   positions = positions_loop (radius options) cosTheta sinTheta 3 (x, y) positions
               in case new_typed_array limit ((numPts - 1) * 3) 0 of
                    Inl e \<Rightarrow> Inl e
                  | Inr ibuf \<Rightarrow>
                      let indices = indices_loop 0 1 ibuf
                      in Inr \<lparr>values = positions, indices = indices, primitiveType = TRIANGLES,
                              boundingSphere = BoundingSphere (0, 0, 0) (radius options)\<rparr>)"

text \<open>The descriptor that the constructor fills: \<^verbatim>\<open>this._radius\<close> and so on.\<close>

record sector_descriptor =
  sg_radius :: jsval
  sg_sectorAngle :: jsval
  sg_rotation :: jsval
  sg_granularity :: jsval
  sg_workerName :: string

text \<open>\<^verbatim>\<open>defaultValue.EMPTY_OBJECT\<close> read as sector options: every property is missing.\<close>

definition EMPTY_OBJECT_sector :: "jsval sector_options" where
  "EMPTY_OBJECT_sector =
     \<lparr>radius = Undefined, sectorAngle = Undefined, rotation = Undefined, granularity = Undefined\<rparr>"

text \<open>
  Lines 158 to 198, the constructor. The sector angle arrives in degrees and is tested
  and stored in radians; the rotation stays in degrees. The conversion of line 162 runs,
  and may throw, before any test. The ellipsoid of line 164 is read and never used.
\<close>

definition SectorGeometry :: "jsval sector_options option \<Rightarrow> error + sector_descriptor" where
  "SectorGeometry arg =
     (let options = defaultValue_object arg EMPTY_OBJECT_sector;
          radius = radius options
      in case toRadians_js (sectorAngle options) of
           Inl e \<Rightarrow> Inl e
         | Inr radians \<Rightarrow>
             let sectorAngle = radians;
                 granularity = defaultValue (granularity options) (Number 0.02);
                 rotation = defaultValue (rotation options) (Number 0.0)
             in if \<not> defined radius then Inl (DeveloperError ''radius must be specified!'')
                else if \<not> typeof_number radius then Inl (DeveloperError ''radius must be a number!'')
                else if js_le radius (Number 0.0) then
                  Inl (DeveloperError ''radius must be a positive number'')
                else if \<not> defined sectorAngle then
                  Inl (DeveloperError ''sectorAngle must be specified!'')
                else if \<not> typeof_number sectorAngle then
                  Inl (DeveloperError ''sectorAngle must be a number!'')
                else if js_le sectorAngle (Number 0.0) \<or> js_ge sectorAngle (Number TWO_PI) then
                  Inl (DeveloperError ''sectorAngle must be a positive number and less than 360'')
                else if js_lt rotation (Number 0.0) \<or> js_gt rotation (Number 360.0) then
                  Inl (DeveloperError ''rotation angle must be between 0 and 360 degrees'')
                else if js_le granularity (Number 0.0) then
                  Inl (DeveloperError ''granularity must be greater than zero.'')
                else
                  Inr \<lparr>sg_radius = radius, sg_sectorAngle = sectorAngle, sg_rotation = rotation,
                       sg_granularity = granularity, sg_workerName = ''createSectorGeometry''\<rparr>)"

section \<open>Properties of the sector\<close>

subsection \<open>The two loops\<close>

declare positions_loop.simps [simp del] indices_loop.simps [simp del]

lemma rotate_step_cos_sin:
  "rotate_step (cos t) (sin t) (cos a, sin a) = (cos (a + t), sin (a + t))"
  by (simp add: cos_add sin_add algebra_simps)

lemma positions_loop_length: "length (positions_loop r c s i xy ps) = length ps"
proof (induction r c s i xy ps rule: positions_loop.induct)
  case (1 r c s i xy ps)
  then show ?case by (subst positions_loop.simps) auto
qed

lemma positions_loop_nth:
  "j < length ps \<Longrightarrow>
   positions_loop r (cos t) (sin t) i (cos a, sin a) ps ! j =
     (if j < i then ps ! j
      else if (j - i) mod 3 = 0 then cos (a + real ((j - i) div 3) * t) * r
      else if (j - i) mod 3 = 1 then sin (a + real ((j - i) div 3) * t) * r
      else 0)"
proof (induction r "cos t" "sin t" i "(cos a, sin a)" ps arbitrary: a rule: positions_loop.induct)
  case (1 r i ps)
  show ?case
  proof (cases "i < length ps")
    case False
    then show ?thesis using 1(2) by (subst positions_loop.simps) simp
  next
    case True
    have step: "rotate_step (cos t) (sin t) (cos a, sin a) = (cos (a + t), sin (a + t))"
      by (rule rotate_step_cos_sin)
    let ?ps = "ps[i := fst (cos a, sin a) * r, i + 1 := snd (cos a, sin a) * r, i + 2 := 0]"
    have len: "j < length ?ps" using 1(2) by simp
    have IH: "positions_loop r (cos t) (sin t) (i + 3) (cos (a + t), sin (a + t)) ?ps ! j =
       (if j < i + 3 then ?ps ! j
        else if (j - (i + 3)) mod 3 = 0 then cos (a + t + real ((j - (i + 3)) div 3) * t) * r
        else if (j - (i + 3)) mod 3 = 1 then sin (a + t + real ((j - (i + 3)) div 3) * t) * r
        else 0)"
      using 1(1)[OF True step len] .
    have unf: "positions_loop r (cos t) (sin t) i (cos a, sin a) ps =
       positions_loop r (cos t) (sin t) (i + 3) (cos (a + t), sin (a + t)) ?ps"
      using True by (subst positions_loop.simps) (simp add: step del: rotate_step.simps)
    show ?thesis
    proof (cases "j < i + 3")
      case True
      then consider "j < i" | "j = i" | "j = i + 1" | "j = i + 2" by linarith
      then show ?thesis
        using 1(2) IH by cases (simp_all add: unf)
    next
      case False
      then obtain d where d: "j = i + 3 + d" by (metis le_add_diff_inverse not_less)
      have "(3 + d) div 3 = Suc (d div 3)" "(3 + d) mod 3 = d mod 3" by simp_all
      then show ?thesis
        using False IH by (simp add: unf d algebra_simps)
    qed
  qed
qed

lemma rotate_step_funpow:
  "(rotate_step (cos t) (sin t) ^^ k) (cos a, sin a) = (cos (a + real k * t), sin (a + real k * t))"
proof (induction k)
  case 0
  show ?case by simp
next
  case (Suc k)
  have eq: "a + real k * t + t = a + real (Suc k) * t" by (simp add: algebra_simps)
  have "(rotate_step (cos t) (sin t) ^^ Suc k) (cos a, sin a) =
      rotate_step (cos t) (sin t) ((rotate_step (cos t) (sin t) ^^ k) (cos a, sin a))"
    by simp
  also have "\<dots> = rotate_step (cos t) (sin t) (cos (a + real k * t), sin (a + real k * t))"
    by (simp only: Suc)
  also have "\<dots> = (cos (a + real k * t + t), sin (a + real k * t + t))"
    by (rule rotate_step_cos_sin)
  finally show ?case by (simp only: eq)
qed

lemma indices_loop_length: "length (indices_loop j i ixs) = length ixs"
proof (induction j i ixs rule: indices_loop.induct)
  case (1 j i ixs)
  then show ?case by (subst indices_loop.simps) auto
qed

lemma indices_loop_nth:
  "p < length ixs \<Longrightarrow>
   indices_loop j i ixs ! p =
     (if p < j then ixs ! p
      else if (p - j) mod 3 = 0 then 0
      else if (p - j) mod 3 = 1 then of_nat (i + (p - j) div 3)
      else of_nat (i + (p - j) div 3 + 1))"
proof (induction j i ixs rule: indices_loop.induct)
  case (1 j i ixs)
  show ?case
  proof (cases "j < length ixs")
    case False
    then show ?thesis using 1(2) by (subst indices_loop.simps) simp
  next
    case True
    let ?ixs = "ixs[j := 0, j + 1 := of_nat i, j + 2 := of_nat (i + 1)]"
    have len: "p < length ?ixs" using 1(2) by simp
    note IH = 1(1)[OF True len]
    have unf: "indices_loop j i ixs = indices_loop (j + 3) (i + 1) ?ixs"
      using True by (subst indices_loop.simps) simp
    show ?thesis
    proof (cases "p < j + 3")
      case True
      then consider "p < j" | "p = j" | "p = j + 1" | "p = j + 2" by linarith
      then show ?thesis
        using 1(2) IH by cases (simp_all add: unf)
    next
      case False
      then obtain d where d: "p = j + 3 + d" by (metis le_add_diff_inverse not_less)
      have "(3 + d) div 3 = Suc (d div 3)" "(3 + d) mod 3 = d mod 3" by simp_all
      then show ?thesis
        using False IH by (simp add: unf d algebra_simps)
    qed
  qed
qed

lemma mod3_1: "(3 * d + 1) mod 3 = (1::nat)"
  by (simp only: mod_mult_self4) simp

lemma mod3_2: "(3 * d + 2) mod 3 = (2::nat)"
  by (simp only: mod_mult_self4) simp

lemma div3_1: "(3 * d + 1) div 3 = (d::nat)"
  by (simp only: div_mult_self4)

lemma div3_2: "(3 * d + 2) div 3 = (d::nat)"
  by (simp only: div_mult_self4)

lemma take3_nth: "3 \<le> length xs \<Longrightarrow> take 3 xs = [xs ! 0, xs ! 1, xs ! 2]"
proof -
  assume "3 \<le> length xs"
  then obtain a b c ys where "xs = a # b # c # ys"
    by (cases xs; cases "tl xs"; cases "tl (tl xs)") auto
  then show ?thesis by (simp add: numeral_3_eq_3)
qed

lemma of_nat_16_le: "unat (of_nat m :: 16 word) \<le> m"
  by (simp add: unat_of_nat)

lemma unat_of_nat_16: "unat (of_nat m :: 16 word) = m mod 65536"
  by (simp add: unat_of_nat)

lemma sector_triangle:
  assumes "d < n - 1"
  shows "indices_loop 0 1 (replicate (3 * (n - 1)) 0) ! (3 * d) = 0"
    and "indices_loop 0 1 (replicate (3 * (n - 1)) 0) ! (3 * d + 1) = of_nat (d + 1)"
    and "indices_loop 0 1 (replicate (3 * (n - 1)) 0) ! (3 * d + 2) = of_nat (d + 2)"
proof -
  have p: "3 * d < length (replicate (3 * (n - 1)) (0::16 word))"
    "3 * d + 1 < length (replicate (3 * (n - 1)) (0::16 word))"
    "3 * d + 2 < length (replicate (3 * (n - 1)) (0::16 word))"
    using assms by simp_all
  have z: "\<not> 3 * d < 0" "\<not> 3 * d + 1 < 0" "\<not> 3 * d + 2 < 0"
    "3 * d - 0 = 3 * d" "3 * d + 1 - 0 = 3 * d + 1" "3 * d + 2 - 0 = 3 * d + 2"
    by simp_all
  show "indices_loop 0 1 (replicate (3 * (n - 1)) 0) ! (3 * d) = 0"
    unfolding indices_loop_nth[OF p(1)] z by simp
  show "indices_loop 0 1 (replicate (3 * (n - 1)) 0) ! (3 * d + 1) = of_nat (d + 1)"
    unfolding indices_loop_nth[OF p(2)] z mod3_1 div3_1 by (simp add: add.commute)
  show "indices_loop 0 1 (replicate (3 * (n - 1)) 0) ! (3 * d + 2) = of_nat (d + 2)"
    unfolding indices_loop_nth[OF p(3)] z mod3_2 div3_2 by (simp add: add.commute)
qed

lemma sector_indices_stored:
  assumes "1 \<le> k" "k \<le> n - 1"
  shows "indices_loop 0 1 (replicate (3 * (n - 1)) 0) ! (3 * (k - 1)) = 0"
    and "indices_loop 0 1 (replicate (3 * (n - 1)) 0) ! (3 * (k - 1) + 1) = of_nat k"
    and "indices_loop 0 1 (replicate (3 * (n - 1)) 0) ! (3 * (k - 1) + 2) = of_nat (k + 1)"
proof -
  from assms(1) obtain d where d: "k = Suc d" by (metis Suc_le_D One_nat_def)
  have dn: "d < n - 1" using assms(2) d by simp
  have e: "k - 1 = d" "d + 1 = k" "d + 2 = k + 1" using d by simp_all
  show "indices_loop 0 1 (replicate (3 * (n - 1)) 0) ! (3 * (k - 1)) = 0"
    unfolding e(1) by (rule sector_triangle(1)[OF dn])
  show "indices_loop 0 1 (replicate (3 * (n - 1)) 0) ! (3 * (k - 1) + 1) = of_nat k"
    unfolding e(1) using sector_triangle(2)[OF dn] by (simp only: e(2))
  show "indices_loop 0 1 (replicate (3 * (n - 1)) 0) ! (3 * (k - 1) + 2) = of_nat (k + 1)"
    unfolding e(1) using sector_triangle(3)[OF dn] by (simp only: e(3))
qed

lemma sector_indices_cases:
  assumes "p < 3 * (n - 1)"
  shows "indices_loop 0 1 (replicate (3 * (n - 1)) 0) ! p
      \<in> {0, of_nat (p div 3 + 1), of_nat (p div 3 + 2)}"
proof -
  have d: "p div 3 < n - 1" using assms by simp
  have "p mod 3 < 3" by simp
  then consider "p mod 3 = 0" | "p mod 3 = 1" | "p mod 3 = 2" by linarith
  then show ?thesis
  proof cases
    case 1
    then have "p = 3 * (p div 3)" by (metis add.right_neutral mult_div_mod_eq)
    then show ?thesis using sector_triangle(1)[OF d] by simp
  next
    case 2
    then have "p = 3 * (p div 3) + 1" by (metis mult_div_mod_eq)
    then show ?thesis using sector_triangle(2)[OF d] by simp
  next
    case 3
    then have "p = 3 * (p div 3) + 2" by (metis mult_div_mod_eq)
    then show ?thesis using sector_triangle(3)[OF d] by simp
  qed
qed

lemma sector_indices_bound:
  assumes "w \<in> set (indices_loop 0 1 (replicate (3 * (n - 1)) 0))"
  shows "unat w < n + 1"
proof -
  from assms obtain p where p: "p < 3 * (n - 1)"
    and w: "w = indices_loop 0 1 (replicate (3 * (n - 1)) 0) ! p"
    by (auto simp: in_set_conv_nth indices_loop_length)
  have d: "p div 3 < n - 1" using p by simp
  have a: "unat (of_nat (p div 3 + 1) :: 16 word) \<le> p div 3 + 1"
    and b: "unat (of_nat (p div 3 + 2) :: 16 word) \<le> p div 3 + 2"
    by (rule of_nat_16_le)+
  from sector_indices_cases[OF p]
  consider "w = 0" | "w = of_nat (p div 3 + 1)" | "w = of_nat (p div 3 + 2)"
    unfolding w by blast
  then show ?thesis
  proof cases
    case 1
    then show ?thesis by simp
  next
    case 2
    have "unat w \<le> p div 3 + 1" unfolding 2 by (rule a)
    then show ?thesis using d by linarith
  next
    case 3
    have "unat w \<le> p div 3 + 2" unfolding 3 by (rule b)
    then show ?thesis using d by linarith
  qed
qed

lemma sector_point:
  assumes "d < n"
  shows "positions_loop r (cos t) (sin t) 3 (cos a, sin a) (replicate (3 * (n + 1)) 0) ! (3 * Suc d)
           = cos (a + real d * t) * r"
    and "positions_loop r (cos t) (sin t) 3 (cos a, sin a) (replicate (3 * (n + 1)) 0) ! (3 * Suc d + 1)
           = sin (a + real d * t) * r"
    and "positions_loop r (cos t) (sin t) 3 (cos a, sin a) (replicate (3 * (n + 1)) 0) ! (3 * Suc d + 2)
           = 0"
proof -
  have l: "3 * Suc d < length (replicate (3 * (n + 1)) (0::real))"
    "3 * Suc d + 1 < length (replicate (3 * (n + 1)) (0::real))"
    "3 * Suc d + 2 < length (replicate (3 * (n + 1)) (0::real))"
    using assms by simp_all
  have g: "\<not> 3 * Suc d < 3" "\<not> 3 * Suc d + 1 < 3" "\<not> 3 * Suc d + 2 < 3"
    "3 * Suc d - 3 = 3 * d" "3 * Suc d + 1 - 3 = 3 * d + 1" "3 * Suc d + 2 - 3 = 3 * d + 2"
    by simp_all
  have z: "(3 * d) mod 3 = 0" "(3 * d) div 3 = d" by simp_all
  show "positions_loop r (cos t) (sin t) 3 (cos a, sin a) (replicate (3 * (n + 1)) 0) ! (3 * Suc d)
           = cos (a + real d * t) * r"
    unfolding positions_loop_nth[OF l(1)] g z by simp
  show "positions_loop r (cos t) (sin t) 3 (cos a, sin a) (replicate (3 * (n + 1)) 0) ! (3 * Suc d + 1)
           = sin (a + real d * t) * r"
    unfolding positions_loop_nth[OF l(2)] g mod3_1 div3_1 by simp
  show "positions_loop r (cos t) (sin t) 3 (cos a, sin a) (replicate (3 * (n + 1)) 0) ! (3 * Suc d + 2)
           = 0"
    unfolding positions_loop_nth[OF l(3)] g mod3_2 div3_2 by simp
qed

lemma sector_origin:
  "take 3 (positions_loop r (cos t) (sin t) 3 (cos a, sin a) (replicate (3 * (n + 1)) 0)) = [0, 0, 0]"
proof -
  let ?ps = "positions_loop r (cos t) (sin t) 3 (cos a, sin a) (replicate (3 * (n + 1)) 0)"
  have len: "3 \<le> length ?ps" by (simp add: positions_loop_length)
  have "?ps ! j = 0" if "j < 3" for j
  proof -
    have "j < length (replicate (3 * (n + 1)) (0::real))" using that by simp
    from positions_loop_nth[OF this] show ?thesis using that by simp
  qed
  then have "?ps ! 0 = 0" "?ps ! 1 = 0" "?ps ! 2 = 0" by simp_all
  then show ?thesis unfolding take3_nth[OF len] by simp
qed

lemma circle_point: "(cos u * r)\<^sup>2 + (sin u * r)\<^sup>2 = (r::real)\<^sup>2"
proof -
  have "(cos u * r)\<^sup>2 + (sin u * r)\<^sup>2 = ((cos u)\<^sup>2 + (sin u)\<^sup>2) * r\<^sup>2"
    by (simp only: power_mult_distrib distrib_right)
  then show ?thesis by (simp only: sin_cos_squared_add2 mult_1)
qed

subsection \<open>The rounding of the quotient\<close>

lemma round_ties_even_nonneg: "0 \<le> y \<Longrightarrow> 0 \<le> round_ties_even y"
  by (auto simp: round_ties_even_def Let_def)

lemma double_ulp_pos: "0 < double_ulp x"
  by (simp add: double_ulp_def)

lemma to_double_nonneg: "0 \<le> x \<Longrightarrow> 0 \<le> to_double x"
  using double_ulp_pos[of x] by (simp add: to_double_def round_ties_even_nonneg)

lemma round_ties_even_of_int: "round_ties_even (real_of_int k) = k"
  by (simp add: round_ties_even_def)

lemma to_double_pow2: "to_double (2 ^ n) = 2 ^ n"
proof -
  have l: "log 2 \<bar>2 ^ n :: real\<bar> = real n" by (simp add: log_nat_power)
  have e: "double_exponent (2 ^ n) = int n"
    unfolding double_exponent_def l by simp
  have u: "double_ulp (2 ^ n) = 2 powr (real n - 52)"
    unfolding double_ulp_def e by simp
  have p52: "(2::real) powr 52 = real_of_int 4503599627370496"
    using powr_realpow[of "2::real" 52] by simp
  have "(2::real) ^ n / 2 powr (real n - 52) = 2 powr real n / 2 powr (real n - 52)"
    by (simp add: powr_realpow)
  also have "\<dots> = 2 powr 52" by (simp flip: powr_diff)
  finally have q: "(2::real) ^ n / 2 powr (real n - 52) = real_of_int 4503599627370496"
    unfolding p52 .
  have "to_double (2 ^ n) =
      real_of_int (round_ties_even (2 ^ n / double_ulp (2 ^ n))) * double_ulp (2 ^ n)"
    by (simp add: to_double_def)
  also have "\<dots> = real_of_int 4503599627370496 * 2 powr (real n - 52)"
    unfolding u q round_ties_even_of_int ..
  also have "\<dots> = 2 powr 52 * 2 powr (real n - 52)" unfolding p52 ..
  also have "\<dots> = 2 powr (52 + (real n - 52))" by (simp only: powr_add)
  also have "\<dots> = 2 powr real n" by (simp del: powr_numeral powr_neg_numeral)
  also have "\<dots> = 2 ^ n" by (simp add: powr_realpow)
  finally show ?thesis .
qed

lemma round_ties_even_small: "0 \<le> y \<Longrightarrow> y < 1 / 2 \<Longrightarrow> round_ties_even y = 0"
proof -
  assume a: "0 \<le> y" "y < 1 / 2"
  then have "\<lfloor>y\<rfloor> = 0" by linarith
  then show ?thesis using a by (simp add: round_ties_even_def)
qed

lemma to_double_tiny:
  assumes "t \<le> - 1076"
  shows "to_double (2 powr t) = 0"
proof -
  have l: "log 2 \<bar>2 powr t :: real\<bar> = t" by simp
  have "\<lfloor>t\<rfloor> \<le> - 1076" using assms by linarith
  then have e: "double_exponent (2 powr t) = - 1022"
    unfolding double_exponent_def l by simp
  have u: "double_ulp (2 powr t) = 2 powr (- 1074)"
    unfolding double_ulp_def e by (simp del: powr_numeral powr_neg_numeral)
  have q: "(2::real) powr t / 2 powr (- 1074) = 2 powr (t + 1074)"
    by (simp del: powr_numeral powr_neg_numeral flip: powr_diff)
  have "(2::real) powr (t + 1074) \<le> 2 powr (- 2)"
    using assms by (intro powr_mono) simp_all
  also have "\<dots> = 1 / 4" by (simp add: powr_minus_divide)
  finally have s: "(2::real) powr (t + 1074) < 1 / 2" by simp
  have r: "round_ties_even (2 powr (t + 1074)) = 0"
    using s by (intro round_ties_even_small) simp_all
  have "to_double (2 powr t) =
      real_of_int (round_ties_even (2 powr t / double_ulp (2 powr t))) * double_ulp (2 powr t)"
    by (simp add: to_double_def)
  also have "\<dots> = 0" unfolding u q r by (simp del: powr_numeral powr_neg_numeral)
  finally show ?thesis .
qed

lemma to_double_underflow: "to_double (2 powr (- 1074) / 4) = 0"
proof -
  have "(4::real) = 2 powr 2" by simp
  then have "2 powr (- 1074) / 4 = (2::real) powr (- 1074) / 2 powr 2" by (simp only:)
  also have "\<dots> = 2 powr (- 1074 - 2)" by (simp only: powr_diff)
  also have "\<dots> = 2 powr (- 1076)" by (simp del: powr_numeral powr_neg_numeral)
  finally have x: "2 powr (- 1074) / 4 = (2::real) powr (- 1076)" .
  show ?thesis unfolding x by (rule to_double_tiny) simp
qed

subsection \<open>The result of the function\<close>

lemma replicate_update_same: "(replicate n x)[i := x] = replicate n x"
  by (cases "i < n") (simp_all add: list_update_same_conv list_update_beyond)

lemma replicate_zero_origin: "(replicate n (0::real))[0 := 0, 1 := 0, 2 := 0] = replicate n 0"
  by (simp only: replicate_update_same)

lemma numPts_ge_1:
  assumes "0 < sectorAngle opts" "0 < granularity opts"
  shows "1 \<le> numPts opts"
proof -
  have "0 \<le> sectorAngle opts / granularity opts" using assms by simp
  then have "0 \<le> to_double (sectorAngle opts / granularity opts)" by (rule to_double_nonneg)
  then have "0 \<le> \<lceil>to_double (sectorAngle opts / granularity opts)\<rceil>" by linarith
  then show ?thesis by (simp add: numPts_def)
qed

lemma numPts_ge_2:
  assumes "0 < to_double (sectorAngle opts / granularity opts)"
  shows "2 \<le> numPts opts"
proof -
  have "1 \<le> \<lceil>to_double (sectorAngle opts / granularity opts)\<rceil>" using assms by linarith
  then show ?thesis by (simp add: numPts_def)
qed

lemma typed_array_fits_indices:
  assumes "1 \<le> n" "typed_array_fits limit ((n + 1) * 3)"
  shows "typed_array_fits limit ((n - 1) * 3)"
  using assms by (simp add: typed_array_fits_def)

lemma computeSector_fits:
  assumes "granularity opts \<noteq> 0" "1 \<le> numPts opts"
    and "typed_array_fits limit (3 * (numPts opts + 1))"
  shows "computeSector limit opts =
    Inr \<lparr>values = positions_loop (radius opts)
            (cos (sectorAngle opts / real_of_int (numPts opts - 1)))
            (sin (sectorAngle opts / real_of_int (numPts opts - 1))) 3
            (cos (toRadians (rotation opts)), sin (toRadians (rotation opts)))
            (replicate (3 * (nat (numPts opts) + 1)) 0),
         indices = indices_loop 0 1 (replicate (3 * (nat (numPts opts) - 1)) 0),
         primitiveType = TRIANGLES,
         boundingSphere = BoundingSphere (0, 0, 0) (radius opts)\<rparr>"
proof -
  define m where "m = nat (numPts opts)"
  have m: "numPts opts = int m" "1 \<le> m" using assms(2) by (simp_all add: m_def)
  have f1: "typed_array_fits limit ((numPts opts + 1) * 3)"
    using assms(3) by (simp add: mult.commute)
  have f2: "typed_array_fits limit ((numPts opts - 1) * 3)"
    using assms(2) f1 by (rule typed_array_fits_indices)
  have "(int m + 1) * 3 = int (3 * (m + 1))" "(int m - 1) * 3 = int (3 * (m - 1))"
    using m(2) by simp_all
  then have a: "nat ((numPts opts + 1) * 3) = 3 * (nat (numPts opts) + 1)"
    and b: "nat ((numPts opts - 1) * 3) = 3 * (nat (numPts opts) - 1)"
    by (simp_all only: m nat_int)
  have p: "new_typed_array limit ((numPts opts + 1) * 3) (0::real) =
      Inr (replicate (3 * (nat (numPts opts) + 1)) 0)"
    using f1 by (simp only: new_typed_array_def a if_True)
  have i: "new_typed_array limit ((numPts opts - 1) * 3) (0::16 word) =
      Inr (replicate (3 * (nat (numPts opts) - 1)) 0)"
    using f2 by (simp only: new_typed_array_def b if_True)
  show ?thesis
    unfolding computeSector_def Let_def p i
    using assms(1) by (simp add: replicate_update_same)
qed

lemma computeSector_too_large:
  assumes "granularity opts \<noteq> 0"
    and "\<not> typed_array_fits limit (3 * (numPts opts + 1))"
  shows "computeSector limit opts = Inl RangeError"
proof -
  have "\<not> typed_array_fits limit ((numPts opts + 1) * 3)"
    using assms(2) by (simp add: mult.commute)
  then have "new_typed_array limit ((numPts opts + 1) * 3) (0::real) = Inl RangeError"
    by (simp add: new_typed_array_def)
  then show ?thesis
    unfolding computeSector_def Let_def using assms(1) by simp
qed

lemma sector_last_angle:
  assumes "2 \<le> numPts opts"
  shows "real (nat (numPts opts) - 1) * (sectorAngle opts / real_of_int (numPts opts - 1))
      = sectorAngle opts"
proof -
  have "real (nat (numPts opts) - 1) = real_of_int (numPts opts - 1)"
    using assms by (simp add: of_nat_diff)
  moreover have "real_of_int (numPts opts - 1) \<noteq> 0" using assms by simp
  ultimately show ?thesis by simp
qed

lemma numPts_coarse:
  "numPts \<lparr>radius = 2, sectorAngle = 1, rotation = 90, granularity = 1 / 2\<rparr> = 3"
  using to_double_pow2[of 1] by (simp add: numPts_def)

lemma numPts_fine: "numPts \<lparr>radius = 1, sectorAngle = 1, rotation = 0, granularity = 1 / 65536\<rparr> = 65537"
  using to_double_pow2[of 16] by (simp add: numPts_def)

lemma numPts_finest:
  "numPts \<lparr>radius = 1, sectorAngle = 1, rotation = 0, granularity = 1 / 2 ^ 52\<rparr> = 4503599627370497"
  using to_double_pow2[of 52] by (simp add: numPts_def)

lemma numPts_underflow:
  "numPts \<lparr>radius = 1, sectorAngle = 2 powr (- 1074), rotation = 0, granularity = 4\<rparr> = 1"
  by (simp add: numPts_def to_double_underflow del: powr_numeral powr_neg_numeral)


lemma computeSector_finest: "computeSector limit \<lparr>radius = 1, sectorAngle = 1, rotation = 0, granularity = 1 / 2 ^ 52\<rparr> = Inl RangeError"
proof (rule computeSector_too_large)
  show "granularity (\<lparr>radius = 1, sectorAngle = 1, rotation = 0, granularity = 1 / 2 ^ 52\<rparr> :: real sector_options) \<noteq> 0" by simp
  show "\<not> typed_array_fits limit (3 * (numPts \<lparr>radius = 1, sectorAngle = 1, rotation = 0, granularity = 1 / 2 ^ 52\<rparr> + 1))"
    unfolding numPts_finest by (simp add: typed_array_fits_def)
qed

subsection \<open>The distance from the origin\<close>

text \<open>
  C3: for every valid sector parameter set, every position other than the origin (the
  points \<open>1\<close> to \<open>numPts\<close> of the buffer) lies at distance exactly \<open>radius\<close>
  from the local origin, over the reals, and the bounding sphere has the local origin
  as its centre and the input radius as its radius. The function returns these whenever
  the position buffer can be allocated; otherwise it throws a \<open>RangeError\<close> and emits
  nothing.
\<close>

theorem computeSector_radius:
  assumes "0 < radius opts" "0 < sectorAngle opts" "sectorAngle opts < 2 * pi"
    and "0 \<le> rotation opts" "rotation opts \<le> 360" "0 < granularity opts"
  shows "if typed_array_fits limit (3 * (numPts opts + 1)) then
       \<exists>g. computeSector limit opts = Inr g \<and>
         int (length (values g)) = 3 * (numPts opts + 1) \<and>
         (\<forall>k. 1 \<le> k \<and> int k \<le> numPts opts \<longrightarrow>
            sqrt ((values g ! (3 * k))\<^sup>2 + (values g ! (3 * k + 1))\<^sup>2 + (values g ! (3 * k + 2))\<^sup>2)
              = radius opts) \<and>
         boundingSphere g = BoundingSphere (0, 0, 0) (radius opts)
     else computeSector limit opts = Inl RangeError"
proof (cases "typed_array_fits limit (3 * (numPts opts + 1))")
  case False
  then show ?thesis using computeSector_too_large[of opts limit] assms(6) by simp
next
  case True
  define n where "n = nat (numPts opts)"
  define t where "t = sectorAngle opts / real_of_int (numPts opts - 1)"
  define a where "a = toRadians (rotation opts)"
  define ps where "ps = positions_loop (radius opts) (cos t) (sin t) 3 (cos a, sin a)
            (replicate (3 * (n + 1)) 0)"
  have n1: "1 \<le> numPts opts" using assms(2,6) by (rule numPts_ge_1)
  have nn: "numPts opts = int n" using n1 by (simp add: n_def)
  have g0: "granularity opts \<noteq> 0" using assms(6) by simp
  have g: "computeSector limit opts =
    Inr \<lparr>values = ps, indices = indices_loop 0 1 (replicate (3 * (n - 1)) 0),
         primitiveType = TRIANGLES,
         boundingSphere = BoundingSphere (0, 0, 0) (radius opts)\<rparr>"
    unfolding ps_def n_def t_def a_def using g0 n1 True by (rule computeSector_fits)
  have len: "int (length ps) = 3 * (numPts opts + 1)"
    by (simp add: ps_def positions_loop_length nn)
  have dist: "sqrt ((ps ! (3 * k))\<^sup>2 + (ps ! (3 * k + 1))\<^sup>2 + (ps ! (3 * k + 2))\<^sup>2) = radius opts"
    if "1 \<le> k" "int k \<le> numPts opts" for k
  proof -
    from that(1) obtain d where d: "k = Suc d" by (metis Suc_le_D One_nat_def)
    have dn: "d < n" using that(2) d nn by simp
    have x: "ps ! (3 * k) = cos (a + real d * t) * radius opts"
      and y: "ps ! (3 * k + 1) = sin (a + real d * t) * radius opts"
      and z: "ps ! (3 * k + 2) = 0"
      unfolding ps_def d by (rule sector_point[OF dn])+
    have "(ps ! (3 * k))\<^sup>2 + (ps ! (3 * k + 1))\<^sup>2 + (ps ! (3 * k + 2))\<^sup>2 = (radius opts)\<^sup>2"
      unfolding x y z by (simp only: circle_point zero_power2 add_0_right)
    then show ?thesis using assms(1) by simp
  qed
  have "\<exists>g. computeSector limit opts = Inr g \<and>
         int (length (values g)) = 3 * (numPts opts + 1) \<and>
         (\<forall>k. 1 \<le> k \<and> int k \<le> numPts opts \<longrightarrow>
            sqrt ((values g ! (3 * k))\<^sup>2 + (values g ! (3 * k + 1))\<^sup>2 + (values g ! (3 * k + 2))\<^sup>2)
              = radius opts) \<and>
         boundingSphere g = BoundingSphere (0, 0, 0) (radius opts)"
    using len dist by (simp add: g)
  then show ?thesis using True by simp
qed

text \<open>
  The theorem at radius 2, angle 1, rotation of 90 degrees and granularity 1/2, for the
  last point of the arc, and at granularity \<open>2^-52\<close>, where nothing is allocated.
\<close>

theorem computeSector_radius_witness:
  "(0::real) < 2 \<and> (0::real) < 1 \<and> (1::real) < 2 * pi \<and> (0::real) \<le> 90 \<and> (90::real) \<le> 360 \<and>
   (0::real) < 1 / 2 \<and> typed_array_fits 4294967295 12 \<and>
   (\<exists>g. computeSector 4294967295 \<lparr>radius = 2, sectorAngle = 1, rotation = 90, granularity = 1 / 2\<rparr> = Inr g \<and>
      length (values g) = 12 \<and>
      sqrt ((values g ! 9)\<^sup>2 + (values g ! 10)\<^sup>2 + (values g ! 11)\<^sup>2) = 2 \<and>
      boundingSphere g = BoundingSphere (0, 0, 0) 2) \<and>
   \<not> typed_array_fits 4294967295 (3 * (numPts \<lparr>radius = 1, sectorAngle = 1, rotation = 0, granularity = 1 / 2 ^ 52\<rparr> + 1)) \<and>
   computeSector 4294967295 \<lparr>radius = 1, sectorAngle = 1, rotation = 0, granularity = 1 / 2 ^ 52\<rparr> = Inl RangeError"
proof -
  let ?o = "\<lparr>radius = 2, sectorAngle = 1, rotation = 90, granularity = 1 / 2\<rparr> :: real sector_options"
  let ?b = "\<lparr>radius = 1, sectorAngle = 1, rotation = 0, granularity = 1 / 2 ^ 52\<rparr> :: real sector_options"
  have pi1: "(1::real) < 2 * pi" using pi_ge_two by simp
  have n: "numPts ?o = 3" by (rule numPts_coarse)
  have f: "typed_array_fits 4294967295 12" by (simp add: typed_array_fits_def)
  have h: "0 < radius ?o" "0 < sectorAngle ?o" "sectorAngle ?o < 2 * pi"
    "0 \<le> rotation ?o" "rotation ?o \<le> 360" "0 < granularity ?o"
    using pi1 by simp_all
  have "\<exists>g. computeSector 4294967295 ?o = Inr g \<and>
     int (length (values g)) = 3 * (numPts ?o + 1) \<and>
     (\<forall>k. 1 \<le> k \<and> int k \<le> numPts ?o \<longrightarrow>
        sqrt ((values g ! (3 * k))\<^sup>2 + (values g ! (3 * k + 1))\<^sup>2 + (values g ! (3 * k + 2))\<^sup>2)
          = radius ?o) \<and>
     boundingSphere g = BoundingSphere (0, 0, 0) (radius ?o)"
    using computeSector_radius[OF h, of 4294967295] f unfolding n by simp
  then obtain g where g: "computeSector 4294967295 ?o = Inr g"
    and len: "int (length (values g)) = 3 * (numPts ?o + 1)"
    and dist: "\<forall>k. 1 \<le> k \<and> int k \<le> numPts ?o \<longrightarrow>
        sqrt ((values g ! (3 * k))\<^sup>2 + (values g ! (3 * k + 1))\<^sup>2 + (values g ! (3 * k + 2))\<^sup>2)
          = radius ?o"
    and bs: "boundingSphere g = BoundingSphere (0, 0, 0) (radius ?o)"
    by blast
  have "length (values g) = 12" using len unfolding n by simp
  moreover have "sqrt ((values g ! 9)\<^sup>2 + (values g ! 10)\<^sup>2 + (values g ! 11)\<^sup>2) = 2"
    using dist[rule_format, of 3] unfolding n by simp
  ultimately have A: "\<exists>g. computeSector 4294967295 ?o = Inr g \<and>
      length (values g) = 12 \<and>
      sqrt ((values g ! 9)\<^sup>2 + (values g ! 10)\<^sup>2 + (values g ! 11)\<^sup>2) = 2 \<and>
      boundingSphere g = BoundingSphere (0, 0, 0) 2"
    using g bs by simp
  have hb: "0 < radius ?b" "0 < sectorAngle ?b" "sectorAngle ?b < 2 * pi"
    "0 \<le> rotation ?b" "rotation ?b \<le> 360" "0 < granularity ?b"
    using pi1 by simp_all
  have nb: "\<not> typed_array_fits 4294967295 (3 * (numPts ?b + 1))"
    unfolding numPts_finest by (simp add: typed_array_fits_def)
  have B: "computeSector 4294967295 ?b = Inl RangeError"
    using computeSector_radius[OF hb, of 4294967295] nb by simp
  show ?thesis using pi1 f A nb B by simp
qed


subsection \<open>The ends of the arc\<close>

text \<open>
  C2, as amended: for every valid sector parameter set whose quotient
  \<open>sectorAngle / granularity\<close>, as the double division rounds it, is above 0, the number
  \<open>numPts\<close> is at least 2. If the buffers can be allocated, the first sampled direction
  is \<open>(cos rotation, sin rotation)\<close>, the rotation being converted to radians, and the
  last one, reached by \<open>numPts - 1\<close> incremental rotations by
  \<open>theta = sectorAngle / (numPts - 1)\<close>, is
  \<open>(cos (rotation + sectorAngle), sin (rotation + sectorAngle))\<close>, over the reals; the
  stored coordinates are these directions scaled by the radius. If the buffers cannot be
  allocated the function throws a \<open>RangeError\<close>.
\<close>

theorem computeSector_endpoints:
  assumes "0 < radius opts" "0 < sectorAngle opts" "sectorAngle opts < 2 * pi"
    and "0 \<le> rotation opts" "rotation opts \<le> 360" "0 < granularity opts"
    and "0 < to_double (sectorAngle opts / granularity opts)"
  shows "2 \<le> numPts opts \<and>
    (if typed_array_fits limit (3 * (numPts opts + 1)) then
       \<exists>g. computeSector limit opts = Inr g \<and>
         values g ! 3 = cos (toRadians (rotation opts)) * radius opts \<and>
         values g ! 4 = sin (toRadians (rotation opts)) * radius opts \<and>
         values g ! (3 * nat (numPts opts)) =
           fst ((rotate_step (cos (sectorAngle opts / real_of_int (numPts opts - 1)))
                   (sin (sectorAngle opts / real_of_int (numPts opts - 1))) ^^ nat (numPts opts - 1))
                 (cos (toRadians (rotation opts)), sin (toRadians (rotation opts)))) * radius opts \<and>
         values g ! (3 * nat (numPts opts) + 1) =
           snd ((rotate_step (cos (sectorAngle opts / real_of_int (numPts opts - 1)))
                   (sin (sectorAngle opts / real_of_int (numPts opts - 1))) ^^ nat (numPts opts - 1))
                 (cos (toRadians (rotation opts)), sin (toRadians (rotation opts)))) * radius opts
     else computeSector limit opts = Inl RangeError) \<and>
    (rotate_step (cos (sectorAngle opts / real_of_int (numPts opts - 1)))
        (sin (sectorAngle opts / real_of_int (numPts opts - 1))) ^^ nat (numPts opts - 1))
      (cos (toRadians (rotation opts)), sin (toRadians (rotation opts))) =
      (cos (toRadians (rotation opts) + sectorAngle opts),
       sin (toRadians (rotation opts) + sectorAngle opts))"
proof -
  define n where "n = nat (numPts opts)"
  define t where "t = sectorAngle opts / real_of_int (numPts opts - 1)"
  define a where "a = toRadians (rotation opts)"
  have n2: "2 \<le> numPts opts" using assms(7) by (rule numPts_ge_2)
  then obtain d where d: "n = Suc d" unfolding n_def by (cases "nat (numPts opts)") simp_all
  have nn: "nat (numPts opts - 1) = d" using d by (simp add: n_def)
  have ang: "real d * t = sectorAngle opts"
    using sector_last_angle[OF n2] d by (simp add: n_def t_def)
  have pow: "(rotate_step (cos t) (sin t) ^^ d) (cos a, sin a) =
      (cos (a + sectorAngle opts), sin (a + sectorAngle opts))"
    by (simp only: rotate_step_funpow ang)
  have g0: "granularity opts \<noteq> 0" using assms(6) by simp
  have mid: "if typed_array_fits limit (3 * (numPts opts + 1)) then
       \<exists>g. computeSector limit opts = Inr g \<and>
         values g ! 3 = cos a * radius opts \<and> values g ! 4 = sin a * radius opts \<and>
         values g ! (3 * n) =
           fst (cos (a + sectorAngle opts), sin (a + sectorAngle opts)) * radius opts \<and>
         values g ! (3 * n + 1) =
           snd (cos (a + sectorAngle opts), sin (a + sectorAngle opts)) * radius opts
     else computeSector limit opts = Inl RangeError"
  proof (cases "typed_array_fits limit (3 * (numPts opts + 1))")
    case False
    then show ?thesis using computeSector_too_large[OF g0, of limit] by simp
  next
    case True
    define ps where "ps = positions_loop (radius opts) (cos t) (sin t) 3 (cos a, sin a)
              (replicate (3 * (n + 1)) 0)"
    have n1: "1 \<le> numPts opts" using n2 by simp
    have g: "computeSector limit opts =
      Inr \<lparr>values = ps, indices = indices_loop 0 1 (replicate (3 * (n - 1)) 0),
           primitiveType = TRIANGLES,
           boundingSphere = BoundingSphere (0, 0, 0) (radius opts)\<rparr>"
      unfolding ps_def n_def t_def a_def using g0 n1 True by (rule computeSector_fits)
    have first: "0 < n" using d by simp
    have last: "d < n" using d by simp
    have p3: "ps ! 3 = cos a * radius opts"
      unfolding ps_def using sector_point(1)[OF first, of "radius opts" t a] by simp
    have p4: "ps ! 4 = sin a * radius opts"
      unfolding ps_def using sector_point(2)[OF first, of "radius opts" t a] by simp
    have pl: "ps ! (3 * n) = cos (a + sectorAngle opts) * radius opts"
      unfolding ps_def using sector_point(1)[OF last, of "radius opts" t a]
      by (simp only: d[symmetric] ang)
    have pl1: "ps ! (3 * n + 1) = sin (a + sectorAngle opts) * radius opts"
      unfolding ps_def using sector_point(2)[OF last, of "radius opts" t a]
      by (simp only: d[symmetric] ang)
    show ?thesis using True p3 p4 pl pl1 by (simp add: g)
  qed
  show ?thesis
    unfolding n_def[symmetric] t_def[symmetric] a_def[symmetric] nn pow
    by (intro conjI n2 mid refl)
qed

text \<open>
  The theorem at radius 2, angle 1, rotation of 90 degrees and granularity 1/2.
\<close>

theorem computeSector_endpoints_witness:
  "(0::real) < 2 \<and> (0::real) < 1 \<and> (1::real) < 2 * pi \<and> (0::real) \<le> 90 \<and> (90::real) \<le> 360 \<and>
   (0::real) < 1 / 2 \<and> 0 < to_double (1 / (1 / 2)) \<and>
   numPts \<lparr>radius = 2, sectorAngle = 1, rotation = 90, granularity = 1 / 2\<rparr> = 3 \<and> typed_array_fits 4294967295 12 \<and>
   (\<exists>g. computeSector 4294967295 \<lparr>radius = 2, sectorAngle = 1, rotation = 90, granularity = 1 / 2\<rparr> = Inr g \<and>
      values g ! 3 = cos (toRadians 90) * 2 \<and> values g ! 4 = sin (toRadians 90) * 2 \<and>
      values g ! 9 = cos (toRadians 90 + 1) * 2 \<and> values g ! 10 = sin (toRadians 90 + 1) * 2)"
proof -
  let ?o = "\<lparr>radius = 2, sectorAngle = 1, rotation = 90, granularity = 1 / 2\<rparr> :: real sector_options"
  have pi1: "(1::real) < 2 * pi" using pi_ge_two by simp
  have n: "numPts ?o = 3" by (rule numPts_coarse)
  have f: "typed_array_fits 4294967295 12" by (simp add: typed_array_fits_def)
  have q: "0 < to_double (1 / (1 / 2))" using to_double_pow2[of 1] by simp
  have h: "0 < radius ?o" "0 < sectorAngle ?o" "sectorAngle ?o < 2 * pi"
    "0 \<le> rotation ?o" "rotation ?o \<le> 360" "0 < granularity ?o"
    "0 < to_double (sectorAngle ?o / granularity ?o)"
    using pi1 q by simp_all
  have "\<exists>g. computeSector 4294967295 ?o = Inr g \<and>
      values g ! 3 = cos (toRadians 90) * 2 \<and> values g ! 4 = sin (toRadians 90) * 2 \<and>
      values g ! 9 = cos (toRadians 90 + 1) * 2 \<and> values g ! 10 = sin (toRadians 90 + 1) * 2"
    using computeSector_endpoints[OF h, of 4294967295] f unfolding n by auto
  then show ?thesis using pi1 n f q by simp
qed

text \<open>
  C2 as stated fails on valid parameter sets. With the smallest positive double as the
  sector angle and granularity 4 the quotient rounds to 0, so \<open>numPts\<close> is 1 and not
  at least 2. With sector angle 1 and granularity \<open>2^-52\<close> the position buffer would
  need more than \<open>2^53 - 1\<close> cells: the function throws and samples no direction.
\<close>

theorem computeSector_endpoints_counterexample:
  "(0::real) < 1 \<and> (0::real) < 2 powr (- 1074) \<and> (2 powr (- 1074) :: real) < 2 * pi \<and> (0::real) < 4 \<and>
   numPts \<lparr>radius = 1, sectorAngle = 2 powr (- 1074), rotation = 0, granularity = 4\<rparr> = 1 \<and>
   \<not> 2 \<le> numPts \<lparr>radius = 1, sectorAngle = 2 powr (- 1074), rotation = 0, granularity = 4\<rparr> \<and>
   (1::real) < 2 * pi \<and> (0::real) < 1 / 2 ^ 52 \<and>
   computeSector (2 ^ 53 - 1) \<lparr>radius = 1, sectorAngle = 1, rotation = 0, granularity = 1 / 2 ^ 52\<rparr> = Inl RangeError"
proof -
  have pi1: "(1::real) < 2 * pi" using pi_ge_two by simp
  have "(2::real) powr (- 1074) \<le> 2 powr 0" by (intro powr_mono) simp_all
  then have s: "(2 powr (- 1074) :: real) < 2 * pi"
    using pi1 by (simp del: powr_numeral powr_neg_numeral)
  have p: "(0::real) < 2 powr (- 1074)" by (simp del: powr_numeral powr_neg_numeral)
  show ?thesis
    using pi1 s p numPts_underflow computeSector_finest[of "2 ^ 53 - 1"]
    by (simp del: powr_numeral powr_neg_numeral)
qed


subsection \<open>Indices of sixteen bits\<close>




lemma computeSector_fine:
  assumes "196614 \<le> limit"
  shows "computeSector limit \<lparr>radius = 1, sectorAngle = 1, rotation = 0, granularity = 1 / 65536\<rparr> =
    Inr \<lparr>values = positions_loop 1 (cos (1 / 65536)) (sin (1 / 65536)) 3
            (cos (toRadians 0), sin (toRadians 0)) (replicate (3 * (65537 + 1)) 0),
         indices = indices_loop 0 1 (replicate (3 * (65537 - 1)) 0),
         primitiveType = TRIANGLES,
         boundingSphere = BoundingSphere (0, 0, 0) 1\<rparr>"
proof -
  let ?o = "\<lparr>radius = 1, sectorAngle = 1, rotation = 0, granularity = 1 / 65536\<rparr> :: real sector_options"
  have g0: "granularity ?o \<noteq> 0" by simp
  have n1: "1 \<le> numPts ?o" unfolding numPts_fine by simp
  have f: "typed_array_fits limit (3 * (numPts ?o + 1))"
    unfolding numPts_fine using assms by (simp add: typed_array_fits_def)
  have "nat (numPts ?o) = 65537" "real_of_int (numPts ?o - 1) = 65536"
    by (simp_all add: numPts_fine)
  then show ?thesis
    using computeSector_fits[OF g0 n1 f] by simp
qed


subsection \<open>The buffers and the fan\<close>

lemma computeSector_buffers:
  assumes "0 < sectorAngle opts" "0 < granularity opts"
    and "typed_array_fits limit (3 * (numPts opts + 1))"
  shows "\<exists>g. computeSector limit opts = Inr g \<and>
     int (length (values g)) = 3 * (numPts opts + 1) \<and>
     take 3 (values g) = [0, 0, 0] \<and>
     int (length (indices g)) = 3 * (numPts opts - 1) \<and>
     (numPts opts \<le> 65535 \<longrightarrow>
        (\<forall>k. 1 \<le> k \<and> int k \<le> numPts opts - 1 \<longrightarrow>
           unat (indices g ! (3 * (k - 1))) = 0 \<and>
           unat (indices g ! (3 * (k - 1) + 1)) = k \<and>
           unat (indices g ! (3 * (k - 1) + 2)) = k + 1)) \<and>
     (\<forall>w \<in> set (indices g). uint w < numPts opts + 1)"
proof -
  define n where "n = nat (numPts opts)"
  define t where "t = sectorAngle opts / real_of_int (numPts opts - 1)"
  define a where "a = toRadians (rotation opts)"
  define ps where "ps = positions_loop (radius opts) (cos t) (sin t) 3 (cos a, sin a)
            (replicate (3 * (n + 1)) 0)"
  define ixs where "ixs = indices_loop 0 1 (replicate (3 * (n - 1)) 0)"
  have n1: "1 \<le> numPts opts" using assms(1,2) by (rule numPts_ge_1)
  have nn: "numPts opts = int n" using n1 by (simp add: n_def)
  have n1': "1 \<le> n" using n1 nn by simp
  have g0: "granularity opts \<noteq> 0" using assms(2) by simp
  have g: "computeSector limit opts =
    Inr \<lparr>values = ps, indices = ixs, primitiveType = TRIANGLES,
         boundingSphere = BoundingSphere (0, 0, 0) (radius opts)\<rparr>"
    unfolding ps_def ixs_def n_def t_def a_def using g0 n1 assms(3) by (rule computeSector_fits)
  have lenp: "int (length ps) = 3 * (numPts opts + 1)"
    by (simp add: ps_def positions_loop_length nn)
  have org: "take 3 ps = [0, 0, 0]" unfolding ps_def by (rule sector_origin)
  have leni: "int (length ixs) = 3 * (numPts opts - 1)"
    using n1' by (simp add: ixs_def indices_loop_length nn of_nat_diff)
  have tri: "unat (ixs ! (3 * (k - 1))) = 0 \<and>
        unat (ixs ! (3 * (k - 1) + 1)) = k \<and>
        unat (ixs ! (3 * (k - 1) + 2)) = k + 1"
    if "numPts opts \<le> 65535" "1 \<le> k" "int k \<le> numPts opts - 1" for k
  proof -
    have kn: "k \<le> n - 1" using that(3) nn by simp
    have "k + 1 < 65536" using that(1,3) by simp
    then have "k mod 65536 = k" "(k + 1) mod 65536 = k + 1" by simp_all
    then show ?thesis
      unfolding ixs_def sector_indices_stored[OF that(2) kn] unat_of_nat_16 by simp
  qed
  have bnd: "uint w < numPts opts + 1" if "w \<in> set ixs" for w
  proof -
    have "unat w < n + 1" using that unfolding ixs_def by (rule sector_indices_bound)
    then have "int (unat w) < int n + 1" by linarith
    then show ?thesis unfolding nn by simp
  qed
  show ?thesis
    using lenp org leni tri bnd by (simp add: g)
qed

text \<open>
  C1: the claim says, as the comment of lines 73 to 78 does, that triangle \<open>k\<close> of the
  index buffer is \<open>(0, k, k + 1)\<close> for every valid parameter set. The code stores the
  indices in 16 bits: with sector angle 1 and granularity \<open>1/65536\<close> there are 65537
  arc points, and whenever the engine allocates the 196614 cells of the position buffer
  triangle 65535 is stored as \<open>(0, 65535, 0)\<close> and triangle 65536 as \<open>(0, 0, 1)\<close>.
\<close>

theorem computeSector_fan_wraps:
  assumes "196614 \<le> limit"
  shows "numPts \<lparr>radius = 1, sectorAngle = 1, rotation = 0, granularity = 1 / 65536\<rparr> = 65537 \<and>
    (\<exists>g. computeSector limit \<lparr>radius = 1, sectorAngle = 1, rotation = 0, granularity = 1 / 65536\<rparr> = Inr g \<and>
       length (indices g) = 3 * 65536 \<and>
       unat (indices g ! (3 * (65535 - 1))) = 0 \<and>
       unat (indices g ! (3 * (65535 - 1) + 1)) = 65535 \<and>
       unat (indices g ! (3 * (65535 - 1) + 2)) = 0 \<and>
       unat (indices g ! (3 * (65536 - 1))) = 0 \<and>
       unat (indices g ! (3 * (65536 - 1) + 1)) = 0 \<and>
       unat (indices g ! (3 * (65536 - 1) + 2)) = 1)"
proof -
  let ?ixs = "indices_loop 0 1 (replicate (3 * (65537 - 1)) 0)"
  have a: "?ixs ! (3 * (65535 - 1)) = 0" "?ixs ! (3 * (65535 - 1) + 1) = of_nat 65535"
    "?ixs ! (3 * (65535 - 1) + 2) = of_nat (65535 + 1)"
    by (rule sector_indices_stored; simp)+
  have b: "?ixs ! (3 * (65536 - 1)) = 0" "?ixs ! (3 * (65536 - 1) + 1) = of_nat 65536"
    "?ixs ! (3 * (65536 - 1) + 2) = of_nat (65536 + 1)"
    by (rule sector_indices_stored; simp)+
  have "length ?ixs = 3 * 65536" by (simp add: indices_loop_length)
  moreover have "unat (?ixs ! (3 * (65535 - 1))) = 0"
    "unat (?ixs ! (3 * (65535 - 1) + 1)) = 65535"
    "unat (?ixs ! (3 * (65535 - 1) + 2)) = 0"
    unfolding a by simp_all
  moreover have "unat (?ixs ! (3 * (65536 - 1))) = 0"
    "unat (?ixs ! (3 * (65536 - 1) + 1)) = 0"
    "unat (?ixs ! (3 * (65536 - 1) + 2)) = 1"
    unfolding b by simp_all
  ultimately show ?thesis
    by (simp add: computeSector_fine[OF assms] numPts_fine)
qed

text \<open>
  The theorem for an engine whose typed arrays hold up to \<open>2^32 - 1\<close> cells.
\<close>

theorem computeSector_fan_wraps_witness:
  "(196614::nat) \<le> 4294967295 \<and>
   (\<exists>g. computeSector 4294967295 \<lparr>radius = 1, sectorAngle = 1, rotation = 0, granularity = 1 / 65536\<rparr> = Inr g \<and>
       unat (indices g ! (3 * (65535 - 1))) = 0 \<and>
       unat (indices g ! (3 * (65535 - 1) + 1)) = 65535 \<and>
       unat (indices g ! (3 * (65535 - 1) + 2)) = 0)"
proof -
  have h: "(196614::nat) \<le> 4294967295" by simp
  show ?thesis using computeSector_fan_wraps[OF h] by auto
qed

section \<open>Properties of the constructor of the sector\<close>

lemma toRadians_js_Number: "toRadians_js (Number d) = Inr (Number (toRadians d))"
  by (simp add: toRadians_js_def defined_def js_mul_def toRadians_def)


lemma toRadians_js_cases:
  "(\<exists>msg. toRadians_js v = Inl (DeveloperError msg)) \<or> (\<exists>w. toRadians_js v = Inr w)"
  by (simp add: toRadians_js_def)

lemma pi_not_le_zero: "\<not> pi \<le> 0"
  using pi_gt_zero by linarith

lemma toRadians_range:
  "(toRadians d \<le> 0 \<or> 2 * pi \<le> toRadians d) \<longleftrightarrow> (d \<le> 0 \<or> 360 \<le> d)"
proof -
  have "toRadians d \<le> 0 \<longleftrightarrow> d \<le> 0"
    by (auto simp: toRadians_def RADIANS_PER_DEGREE_def mult_le_0_iff pi_not_le_zero)
  moreover have "2 * pi \<le> toRadians d \<longleftrightarrow> 360 \<le> d"
  proof -
    have "2 * pi \<le> d * pi / 180 \<longleftrightarrow> 360 * pi \<le> d * pi" by (simp add: field_simps)
    also have "\<dots> \<longleftrightarrow> 360 \<le> d" by simp
    finally show ?thesis by (simp add: toRadians_def RADIANS_PER_DEGREE_def)
  qed
  ultimately show ?thesis by simp
qed

text \<open>
  C4, as amended: the constructor fails with a \<open>DeveloperError\<close>, and so returns no
  descriptor from which a geometry could be made, whenever the radius is at most 0, the
  sector angle, which the constructor receives in degrees, is outside \<open>(0, 2\<pi>)\<close> once
  converted to radians, the rotation is outside \<open>[0, 360]\<close>, or the granularity is at
  most 0; whatever the other fields are.
\<close>

theorem SectorGeometry_rejects:
  assumes "(radius opts = Number r \<and> r \<le> 0) \<or>
     (sectorAngle opts = Number d \<and> (toRadians d \<le> 0 \<or> 2 * pi \<le> toRadians d)) \<or>
     (rotation opts = Number ro \<and> (ro < 0 \<or> 360 < ro)) \<or>
     (granularity opts = Number g \<and> g \<le> 0)"
  shows "\<exists>msg. SectorGeometry (Some opts) = Inl (DeveloperError msg)"
proof -
  from toRadians_js_cases[of "sectorAngle opts"]
  consider msg where "toRadians_js (sectorAngle opts) = Inl (DeveloperError msg)"
    | w where "toRadians_js (sectorAngle opts) = Inr w"
    by blast
  then show ?thesis
  proof cases
    case 1
    then show ?thesis by (simp add: SectorGeometry_def Let_def defaultValue_object_def)
  next
    case 2
    then show ?thesis
      using assms
      by (auto simp: SectorGeometry_def Let_def defaultValue_object_def defaultValue_def defined_def
          toRadians_js_Number js_le_def js_ge_def js_lt_def js_gt_def TWO_PI_def)
  qed
qed

text \<open>
  The theorem at the inputs of the claim: radius 0, radius -5, sector angle 0, sector
  angle of 360 degrees (\<open>2\<pi>\<close> radians), rotation 400, granularity 0.
\<close>

theorem SectorGeometry_rejects_witness:
  "(\<exists>msg. SectorGeometry (Some \<lparr>radius = Number 0, sectorAngle = Number 45, rotation = Number 60,
       granularity = Undefined\<rparr>) = Inl (DeveloperError msg)) \<and>
   (\<exists>msg. SectorGeometry (Some \<lparr>radius = Number (- 5), sectorAngle = Number 45, rotation = Number 60,
       granularity = Undefined\<rparr>) = Inl (DeveloperError msg)) \<and>
   (\<exists>msg. SectorGeometry (Some \<lparr>radius = Number 1000, sectorAngle = Number 0, rotation = Number 60,
       granularity = Undefined\<rparr>) = Inl (DeveloperError msg)) \<and>
   (\<exists>msg. SectorGeometry (Some \<lparr>radius = Number 1000, sectorAngle = Number 360, rotation = Number 60,
       granularity = Undefined\<rparr>) = Inl (DeveloperError msg)) \<and>
   (\<exists>msg. SectorGeometry (Some \<lparr>radius = Number 1000, sectorAngle = Number 45, rotation = Number 400,
       granularity = Undefined\<rparr>) = Inl (DeveloperError msg)) \<and>
   (\<exists>msg. SectorGeometry (Some \<lparr>radius = Number 1000, sectorAngle = Number 45, rotation = Number 60,
       granularity = Number 0\<rparr>) = Inl (DeveloperError msg))"
proof -
  have a: "toRadians 0 \<le> 0" "2 * pi \<le> toRadians 360"
    by (simp_all add: toRadians_def RADIANS_PER_DEGREE_def)
  show ?thesis
    using SectorGeometry_rejects[of "\<lparr>radius = Number 0, sectorAngle = Number 45, rotation = Number 60,
       granularity = Undefined\<rparr>" 0]
      SectorGeometry_rejects[of "\<lparr>radius = Number (- 5), sectorAngle = Number 45, rotation = Number 60,
       granularity = Undefined\<rparr>" "- 5"]
      SectorGeometry_rejects[of "\<lparr>radius = Number 1000, sectorAngle = Number 0, rotation = Number 60,
       granularity = Undefined\<rparr>" _ 0]
      SectorGeometry_rejects[of "\<lparr>radius = Number 1000, sectorAngle = Number 360, rotation = Number 60,
       granularity = Undefined\<rparr>" _ 360]
      SectorGeometry_rejects[of "\<lparr>radius = Number 1000, sectorAngle = Number 45, rotation = Number 400,
       granularity = Undefined\<rparr>" _ _ 400]
      SectorGeometry_rejects[of "\<lparr>radius = Number 1000, sectorAngle = Number 45, rotation = Number 60,
       granularity = Number 0\<rparr>" _ _ _ 0]
      a
    by simp
qed

text \<open>
  C4 as stated fails for the sector angle that the constructor receives: the value 45 of
  the example in the documentation of the constructor is above \<open>2\<pi>\<close>, and the
  construction succeeds, with 45 degrees stored in radians.
\<close>

theorem SectorGeometry_rejects_counterexample:
  "2 * pi \<le> (45::real) \<and>
   SectorGeometry (Some \<lparr>radius = Number 1000, sectorAngle = Number 45, rotation = Number 60,
       granularity = Undefined\<rparr>) =
     Inr \<lparr>sg_radius = Number 1000, sg_sectorAngle = Number (45 * (pi / 180)), sg_rotation = Number 60,
          sg_granularity = Number 0.02, sg_workerName = ''createSectorGeometry''\<rparr>"
proof -
  have p: "2 * pi \<le> (45::real)" using pi_less_4 by simp
  have q: "45 * pi < 360 * pi" by simp
  show ?thesis
    using p q
    by (simp add: pi_not_le_zero SectorGeometry_def Let_def defaultValue_object_def defaultValue_def defined_def
        toRadians_js_def js_mul_def js_le_def js_ge_def js_lt_def js_gt_def TWO_PI_def
        RADIANS_PER_DEGREE_def)
qed

lemma SectorGeometry_numeric:
  "(\<exists>msg. SectorGeometry (Some \<lparr>radius = Number r, sectorAngle = Number d, rotation = Number ro,
        granularity = Number g\<rparr>) = Inl (DeveloperError msg)) \<longleftrightarrow>
   (r \<le> 0 \<or> d \<le> 0 \<or> 360 \<le> d \<or> ro < 0 \<or> 360 < ro \<or> g \<le> 0)"
  using toRadians_range[of d]
  by (auto simp: SectorGeometry_def Let_def defaultValue_object_def defaultValue_def defined_def
      toRadians_js_Number js_le_def js_ge_def js_lt_def js_gt_def TWO_PI_def)






section \<open>Properties of the ring\<close>

subsection \<open>The constructor\<close>

text \<open>
  C5: the constructor of the ring fails with a \<open>DeveloperError\<close> when the inner radius
  equals or exceeds the outer one, when a radius is at most 0, and when a radius is
  missing or is not of type number. The constructor of the ellipse outline is not
  reached, whatever it is, and no descriptor exists from which a boundary could be made.
\<close>

theorem RingGeometry_rejects:
  assumes "outerRadius opts = Undefined \<or> innerRadius opts = Undefined \<or>
     \<not> typeof_number (outerRadius opts) \<or> \<not> typeof_number (innerRadius opts) \<or>
     (outerRadius opts = Number ro \<and> ro \<le> 0) \<or>
     (innerRadius opts = Number ri \<and> ri \<le> 0) \<or>
     (outerRadius opts = Number ro \<and> innerRadius opts = Number ri \<and> ro \<le> ri)"
  shows "\<exists>msg. RingGeometry EllipseOutlineGeometry (Some opts) = Inl (DeveloperError msg)"
proof (cases "outerRadius opts")
  case Undefined
  then show ?thesis
    by (simp add: RingGeometry_def Let_def defaultValue_object_def defined_def)
next
  case (Boolean b)
  then show ?thesis
    by (simp add: RingGeometry_def Let_def defaultValue_object_def defined_def)
next
  case NaN
  then show ?thesis
    using assms
    by (cases "innerRadius opts")
      (auto simp: RingGeometry_def Let_def defaultValue_object_def defined_def js_le_def js_ge_def)
next
  case (Number x)
  then show ?thesis
    using assms
    by (cases "innerRadius opts")
      (auto simp: RingGeometry_def Let_def defaultValue_object_def defined_def js_le_def js_ge_def)
qed

text \<open>
  The theorem for equal radii, an inner radius above the outer one, a negative radius, a
  missing radius and a radius that is not a number.
\<close>

theorem RingGeometry_rejects_witness:
  "(\<exists>msg. RingGeometry (\<lambda>x. Inr x)
      (Some \<lparr>center = Some (0::nat), ellipsoid = None :: nat option, height = Undefined,
        extrudedHeight = Undefined, outline_common.granularity = Undefined, numberOfVerticalLines = Undefined,
        innerRadius = Number 5, outerRadius = Number 5\<rparr>) = Inl (DeveloperError msg)) \<and>
   (\<exists>msg. RingGeometry (\<lambda>x. Inr x)
      (Some \<lparr>center = Some (0::nat), ellipsoid = None :: nat option, height = Undefined,
        extrudedHeight = Undefined, outline_common.granularity = Undefined, numberOfVerticalLines = Undefined,
        innerRadius = Number 7, outerRadius = Number 5\<rparr>) = Inl (DeveloperError msg)) \<and>
   (\<exists>msg. RingGeometry (\<lambda>x. Inr x)
      (Some \<lparr>center = Some (0::nat), ellipsoid = None :: nat option, height = Undefined,
        extrudedHeight = Undefined, outline_common.granularity = Undefined, numberOfVerticalLines = Undefined,
        innerRadius = Number (- 1), outerRadius = Number 5\<rparr>) = Inl (DeveloperError msg)) \<and>
   (\<exists>msg. RingGeometry (\<lambda>x. Inr x)
      (Some \<lparr>center = Some (0::nat), ellipsoid = None :: nat option, height = Undefined,
        extrudedHeight = Undefined, outline_common.granularity = Undefined, numberOfVerticalLines = Undefined,
        innerRadius = Undefined, outerRadius = Number 5\<rparr>) = Inl (DeveloperError msg)) \<and>
   (\<exists>msg. RingGeometry (\<lambda>x. Inr x)
      (Some \<lparr>center = Some (0::nat), ellipsoid = None :: nat option, height = Undefined,
        extrudedHeight = Undefined, outline_common.granularity = Undefined, numberOfVerticalLines = Undefined,
        innerRadius = Number 3, outerRadius = Boolean True\<rparr>) = Inl (DeveloperError msg))"
  using RingGeometry_rejects[of
      "\<lparr>center = Some (0::nat), ellipsoid = None :: nat option, height = Undefined,
        extrudedHeight = Undefined, outline_common.granularity = Undefined, numberOfVerticalLines = Undefined,
        innerRadius = Number 5, outerRadius = Number 5\<rparr>" 5 5 "\<lambda>x. Inr x"]
    RingGeometry_rejects[of
      "\<lparr>center = Some (0::nat), ellipsoid = None :: nat option, height = Undefined,
        extrudedHeight = Undefined, outline_common.granularity = Undefined, numberOfVerticalLines = Undefined,
        innerRadius = Number 7, outerRadius = Number 5\<rparr>" 5 7 "\<lambda>x. Inr x"]
    RingGeometry_rejects[of
      "\<lparr>center = Some (0::nat), ellipsoid = None :: nat option, height = Undefined,
        extrudedHeight = Undefined, outline_common.granularity = Undefined, numberOfVerticalLines = Undefined,
        innerRadius = Number (- 1), outerRadius = Number 5\<rparr>" 5 "- 1" "\<lambda>x. Inr x"]
    RingGeometry_rejects[of
      "\<lparr>center = Some (0::nat), ellipsoid = None :: nat option, height = Undefined,
        extrudedHeight = Undefined, outline_common.granularity = Undefined, numberOfVerticalLines = Undefined,
        innerRadius = Undefined, outerRadius = Number 5\<rparr>" 5 0 "\<lambda>x. Inr x"]
    RingGeometry_rejects[of
      "\<lparr>center = Some (0::nat), ellipsoid = None :: nat option, height = Undefined,
        extrudedHeight = Undefined, outline_common.granularity = Undefined, numberOfVerticalLines = Undefined,
        innerRadius = Number 3, outerRadius = Boolean True\<rparr>" 5 0 "\<lambda>x. Inr x"]
  by simp

text \<open>
  C6: for every valid ring parameter set the constructor builds exactly two parameter
  sets for the ellipse outline and hands each to the outline constructor. They agree in
  every field except that both axes are the inner radius in the first and the outer
  radius in the second; \<open>center\<close>, \<open>ellipsoid\<close>, \<open>height\<close>, \<open>extrudedHeight\<close>,
  \<open>granularity\<close> and \<open>numberOfVerticalLines\<close> are those of the input.
\<close>

theorem RingGeometry_parameter_sets:
  assumes "outerRadius opts = Number ro" "innerRadius opts = Number ri" "0 < ri" "ri < ro"
  shows "RingGeometry EllipseOutlineGeometry (Some opts) =
      (case EllipseOutlineGeometry (innerEllipseGeometryOptions opts) of
         Inl e \<Rightarrow> Inl e
       | Inr inner \<Rightarrow>
           (case EllipseOutlineGeometry (outerEllipseGeometryOptions opts) of
              Inl e \<Rightarrow> Inl e
            | Inr outer \<Rightarrow>
                Inr \<lparr>innerEllipseGeometry = inner, outerEllipseGeometry = outer,
                     ring_workerName = ''createRingGeometry''\<rparr>)) \<and>
    semiMajorAxis (innerEllipseGeometryOptions opts) = innerRadius opts \<and>
    semiMinorAxis (innerEllipseGeometryOptions opts) = innerRadius opts \<and>
    semiMajorAxis (outerEllipseGeometryOptions opts) = outerRadius opts \<and>
    semiMinorAxis (outerEllipseGeometryOptions opts) = outerRadius opts \<and>
    outerEllipseGeometryOptions opts =
      (innerEllipseGeometryOptions opts)
        \<lparr>semiMajorAxis := outerRadius opts, semiMinorAxis := outerRadius opts\<rparr> \<and>
    center (innerEllipseGeometryOptions opts) = center opts \<and>
    ellipsoid (innerEllipseGeometryOptions opts) = ellipsoid opts \<and>
    height (innerEllipseGeometryOptions opts) = height opts \<and>
    extrudedHeight (innerEllipseGeometryOptions opts) = extrudedHeight opts \<and>
    outline_common.granularity (innerEllipseGeometryOptions opts) = outline_common.granularity opts \<and>
    numberOfVerticalLines (innerEllipseGeometryOptions opts) = numberOfVerticalLines opts \<and>
    center (outerEllipseGeometryOptions opts) = center opts \<and>
    ellipsoid (outerEllipseGeometryOptions opts) = ellipsoid opts \<and>
    height (outerEllipseGeometryOptions opts) = height opts \<and>
    extrudedHeight (outerEllipseGeometryOptions opts) = extrudedHeight opts \<and>
    outline_common.granularity (outerEllipseGeometryOptions opts) = outline_common.granularity opts \<and>
    numberOfVerticalLines (outerEllipseGeometryOptions opts) = numberOfVerticalLines opts"
proof -
  have "RingGeometry EllipseOutlineGeometry (Some opts) =
      (case EllipseOutlineGeometry (innerEllipseGeometryOptions opts) of
         Inl e \<Rightarrow> Inl e
       | Inr inner \<Rightarrow>
           (case EllipseOutlineGeometry (outerEllipseGeometryOptions opts) of
              Inl e \<Rightarrow> Inl e
            | Inr outer \<Rightarrow>
                Inr \<lparr>innerEllipseGeometry = inner, outerEllipseGeometry = outer,
                     ring_workerName = ''createRingGeometry''\<rparr>))"
    using assms
    by (simp add: RingGeometry_def Let_def defaultValue_object_def defined_def js_le_def js_ge_def)
  then show ?thesis
    by (simp add: innerEllipseGeometryOptions_def outerEllipseGeometryOptions_def)
qed

text \<open>
  The theorem at the radii 30000 and 110000 of the example in the documentation, with
  an outline constructor that returns its options.
\<close>

theorem RingGeometry_parameter_sets_witness:
  "(0::real) < 30000 \<and> (30000::real) < 110000 \<and>
   RingGeometry (\<lambda>x. Inr x) (Some \<lparr>center = Some (7::nat), ellipsoid = None :: nat option, height = Number 0,
        extrudedHeight = Undefined, outline_common.granularity = Number 0.02,
        numberOfVerticalLines = Undefined, innerRadius = Number 30000, outerRadius = Number 110000\<rparr>) =
     Inr \<lparr>innerEllipseGeometry =
            \<lparr>center = Some 7, ellipsoid = None, height = Number 0, extrudedHeight = Undefined,
             outline_common.granularity = Number 0.02, numberOfVerticalLines = Undefined,
             semiMajorAxis = Number 30000, semiMinorAxis = Number 30000\<rparr>,
          outerEllipseGeometry =
            \<lparr>center = Some 7, ellipsoid = None, height = Number 0, extrudedHeight = Undefined,
             outline_common.granularity = Number 0.02, numberOfVerticalLines = Undefined,
             semiMajorAxis = Number 110000, semiMinorAxis = Number 110000\<rparr>,
          ring_workerName = ''createRingGeometry''\<rparr>"
  using RingGeometry_parameter_sets[of "\<lparr>center = Some (7::nat), ellipsoid = None :: nat option, height = Number 0,
        extrudedHeight = Undefined, outline_common.granularity = Number 0.02,
        numberOfVerticalLines = Undefined, innerRadius = Number 30000, outerRadius = Number 110000\<rparr>" 110000 30000 "\<lambda>x. Inr x"]
  by (simp add: innerEllipseGeometryOptions_def outerEllipseGeometryOptions_def)

subsection \<open>The boundaries\<close>

declare cart3s_loop.simps [simp del]

lemma cart3s_loop_cond: "real i < real n / 3 \<longleftrightarrow> i < (n + 2) div 3"
proof -
  have "real i < real n / 3 \<longleftrightarrow> real (3 * i) < real n" by (simp add: field_simps)
  also have "\<dots> \<longleftrightarrow> 3 * i < n" by (simp only: of_nat_less_iff)
  also have "\<dots> \<longleftrightarrow> i < (n + 2) div 3" by linarith
  finally show ?thesis .
qed

lemma cart3s_loop_eq:
  "cart3s_loop F vals i acc =
     acc @ map (\<lambda>k. F (typed_array_get vals (3 * k)) (typed_array_get vals (3 * k + 1))
                      (typed_array_get vals (3 * k + 2))) [i ..< (length vals + 2) div 3]"
proof (induction F vals i acc rule: cart3s_loop.induct)
  case (1 F vals i acc)
  show ?case
  proof (cases "real i < real (length vals) / 3")
    case True
    then have lt: "i < (length vals + 2) div 3" by (simp add: cart3s_loop_cond)
    have "cart3s_loop F vals i acc =
        cart3s_loop F vals (i + 1)
          (acc @ [F (typed_array_get vals (i * 3)) (typed_array_get vals (i * 3 + 1))
                    (typed_array_get vals (i * 3 + 2))])"
      using True by (subst cart3s_loop.simps) (simp add: Let_def)
    also have "\<dots> = (acc @ [F (typed_array_get vals (i * 3)) (typed_array_get vals (i * 3 + 1))
                    (typed_array_get vals (i * 3 + 2))]) @
        map (\<lambda>k. F (typed_array_get vals (3 * k)) (typed_array_get vals (3 * k + 1))
                      (typed_array_get vals (3 * k + 2))) [i + 1 ..< (length vals + 2) div 3]"
      using 1[OF True refl refl] .
    also have "\<dots> = acc @ map (\<lambda>k. F (typed_array_get vals (3 * k)) (typed_array_get vals (3 * k + 1))
                      (typed_array_get vals (3 * k + 2))) [i ..< (length vals + 2) div 3]"
      using lt by (simp add: upt_conv_Cons mult.commute)
    finally show ?thesis .
  next
    case False
    then have "\<not> i < (length vals + 2) div 3" by (simp add: cart3s_loop_cond)
    then show ?thesis using False by (subst cart3s_loop.simps) simp
  qed
qed

lemma positions_walk_eq: "positions_walk cart3s idxs acc = acc @ map (array_get cart3s) idxs"
  by (induction idxs arbitrary: acc) simp_all

lemma array_get_cart3s:
  "array_get (cart3s_loop F vals 0 []) idx = spec_point_at F vals idx"
proof -
  have c: "idx < (length vals + 2) div 3 \<longleftrightarrow> 3 * idx < length vals" by linarith
  show ?thesis
    unfolding cart3s_loop_eq array_get_def spec_point_at_def c[symmetric]
    by simp
qed

lemma positions_walk_spec:
  "positions_walk (cart3s_loop F vals 0 []) idxs [] = spec_boundary F vals idxs"
  by (simp add: positions_walk_eq spec_boundary_def array_get_cart3s)

lemma spec_point_at_in_range:
  assumes "3 * idx + 2 < length vals"
  shows "spec_point_at F vals idx =
     Some (F (Number (vals ! (3 * idx))) (Number (vals ! (3 * idx + 1))) (Number (vals ! (3 * idx + 2))))"
  using assms by (simp add: spec_point_at_def typed_array_get_def)

text \<open>
  C7: for every pair of outline results, the outer boundary that the ring builder
  returns is the sequence whose \<open>i\<close>-th element is the position triple at index
  \<open>outerIndices[i]\<close> of the outer position buffer, in the order of the index buffer, and
  the hole is the inner position buffer read through \<open>innerIndices\<close> in the same way.
  The order of the position buffer itself plays no part.
\<close>

theorem RingGeometry_createGeometry_boundaries:
  assumes "createGeometry (innerEllipseGeometry rg) = Inr innerGeom"
    and "createGeometry (outerEllipseGeometry rg) = Inr outerGeom"
    and "PolygonGeometry (spec_boundary F (values outerGeom) (indices outerGeom),
           [spec_boundary F (values innerGeom) (indices innerGeom)]) = Inr poly"
  shows "\<exists>res. RingGeometry_createGeometry createGeometry F PolygonGeometry (Some rg) = Inr res \<and>
     positions res = spec_boundary F (values outerGeom) (indices outerGeom) \<and>
     holes res = spec_boundary F (values innerGeom) (indices innerGeom) \<and>
     length (positions res) = length (indices outerGeom) \<and>
     length (holes res) = length (indices innerGeom) \<and>
     (\<forall>i < length (indices outerGeom). 3 * (indices outerGeom ! i) + 2 < length (values outerGeom) \<longrightarrow>
        positions res ! i =
          Some (F (Number (values outerGeom ! (3 * (indices outerGeom ! i))))
                  (Number (values outerGeom ! (3 * (indices outerGeom ! i) + 1)))
                  (Number (values outerGeom ! (3 * (indices outerGeom ! i) + 2))))) \<and>
     (\<forall>i < length (indices innerGeom). 3 * (indices innerGeom ! i) + 2 < length (values innerGeom) \<longrightarrow>
        holes res ! i =
          Some (F (Number (values innerGeom ! (3 * (indices innerGeom ! i))))
                  (Number (values innerGeom ! (3 * (indices innerGeom ! i) + 1)))
                  (Number (values innerGeom ! (3 * (indices innerGeom ! i) + 2)))))"
proof -
  have r: "RingGeometry_createGeometry createGeometry F PolygonGeometry (Some rg) =
      Inr \<lparr>positions = spec_boundary F (values outerGeom) (indices outerGeom),
           holes = spec_boundary F (values innerGeom) (indices innerGeom)\<rparr>"
    using assms by (simp add: RingGeometry_createGeometry_def Let_def positions_walk_spec)
  have el: "spec_boundary F vals idxs ! i =
      Some (F (Number (vals ! (3 * (idxs ! i)))) (Number (vals ! (3 * (idxs ! i) + 1)))
              (Number (vals ! (3 * (idxs ! i) + 2))))"
    if "i < length idxs" "3 * (idxs ! i) + 2 < length vals" for vals idxs i
    using that by (simp add: spec_boundary_def spec_point_at_in_range)
  show ?thesis
    unfolding r using el by (simp add: spec_boundary_def)
qed

text \<open>
  The theorem for an outer outline of three points walked in the order 2, 0, 1 and an
  inner outline of two points walked in the order 1, 0.
\<close>

theorem RingGeometry_createGeometry_boundaries_witness:
  "RingGeometry_createGeometry
     (\<lambda>b. Inr (if b then
         \<lparr>values = [0, 0, 0, 1, 0, 0, 0, 1, 0], indices = [2, 0, 1], primitiveType = LINES,
          boundingSphere = BoundingSphere (0, 0, 0) 1\<rparr>
       else
         \<lparr>values = [0, 0, 5, 2, 0, 5], indices = [1, 0], primitiveType = LINES,
          boundingSphere = BoundingSphere (0, 0, 0) 2\<rparr>))
     (\<lambda>x y z. (x, y, z)) (\<lambda>h. Inr ())
     (Some \<lparr>innerEllipseGeometry = False, outerEllipseGeometry = True,
            ring_workerName = ''createRingGeometry''\<rparr>) =
   Inr \<lparr>positions = [Some (Number 0, Number 1, Number 0), Some (Number 0, Number 0, Number 0),
                      Some (Number 1, Number 0, Number 0)],
        holes = [Some (Number 2, Number 0, Number 5), Some (Number 0, Number 0, Number 5)]\<rparr>"
proof -
  let ?outer = "\<lparr>values = [0, 0, 0, 1, 0, 0, 0, 1, 0], indices = [2, 0, 1::nat], primitiveType = LINES,
          boundingSphere = BoundingSphere (0, 0, 0) 1\<rparr>"
  let ?inner = "\<lparr>values = [0, 0, 5, 2, 0, 5], indices = [1, 0::nat], primitiveType = LINES,
          boundingSphere = BoundingSphere (0, 0, 0) 2\<rparr>"
  let ?cg = "\<lambda>b. Inr (if b then ?outer else ?inner) :: error + nat Geometry"
  let ?rg = "\<lparr>innerEllipseGeometry = False, outerEllipseGeometry = True,
            ring_workerName = ''createRingGeometry''\<rparr>"
  have a: "?cg (innerEllipseGeometry ?rg) = Inr ?inner" by simp
  have b: "?cg (outerEllipseGeometry ?rg) = Inr ?outer" by simp
  have c: "(\<lambda>h. Inr ()) (spec_boundary (\<lambda>x y z. (x, y, z)) (values ?outer) (indices ?outer),
           [spec_boundary (\<lambda>x y z. (x, y, z)) (values ?inner) (indices ?inner)]) = (Inr () :: error + unit)"
    by simp
  from RingGeometry_createGeometry_boundaries[of ?cg ?rg ?inner ?outer "\<lambda>h. Inr ()" "\<lambda>x y z. (x, y, z)" "()", OF a b c]
  obtain res where r: "RingGeometry_createGeometry ?cg (\<lambda>x y z. (x, y, z)) (\<lambda>h. Inr ()) (Some ?rg) = Inr res"
    and p: "positions res = spec_boundary (\<lambda>x y z. (x, y, z)) (values ?outer) (indices ?outer)"
    and h: "holes res = spec_boundary (\<lambda>x y z. (x, y, z)) (values ?inner) (indices ?inner)"
    by blast
  have "res = \<lparr>positions = positions res, holes = holes res\<rparr>" by simp
  also have "\<dots> = \<lparr>positions = [Some (Number 0, Number 1, Number 0), Some (Number 0, Number 0, Number 0),
                      Some (Number 1, Number 0, Number 0)],
        holes = [Some (Number 2, Number 0, Number 5), Some (Number 0, Number 0, Number 5)]\<rparr>"
    unfolding p h by (simp add: spec_boundary_def spec_point_at_def typed_array_get_def)
  finally show ?thesis using r by simp
qed

subsection \<open>The worker\<close>

text \<open>
  C9: the worker entry point calls \<open>RingGeometry.createGeometry\<close> without an argument,
  so for every parameters object the call throws a \<open>TypeError\<close> on the missing
  descriptor and no ring result is returned.
\<close>

theorem createRingGeometry_fails:
  "createRingGeometry createGeometry fromElements PolygonGeometry transferGeometry
     parameters transferableObjects = Inl TypeError"
  by (simp add: createRingGeometry_def RingGeometry_createGeometry_def)

end
